theory Spec2Isabelle
  imports Main "HOL-Library.Sublist"
begin

section \<open>The configuration validator of \<^verbatim>\<open>infrastructure/scripts/validate-config.py\<close>\<close>

text \<open>
  The script is one class, \<^verbatim>\<open>ConfigValidator\<close>, whose methods append messages to two
  lists (\<^verbatim>\<open>self.errors\<close>, \<^verbatim>\<open>self.warnings\<close>) while they walk a document that
  \<^verbatim>\<open>yaml.safe_load\<close> returned, and a \<^verbatim>\<open>main\<close> that picks the exit status. The
  embedding below keeps Python's dynamic typing: a document is a value of the datatype
  \<open>yaml\<close>, every operation that Python would reject raises, and a raise is a value.

  Conventions of the embedding.
  \<^item> Text is ASCII, and \<open>ascii\<close> says so of a string. On ASCII text \<open>upper\<close>,
    \<open>lower\<close>, \<open>py_int\<close> and \<open>py_float\<close> are Python's \<^verbatim>\<open>str.upper\<close>,
    \<^verbatim>\<open>str.lower\<close>, \<^verbatim>\<open>int\<close> and \<^verbatim>\<open>float\<close>. Python's own operations also
    know the letters, digits and white space of Unicode (the dotless i upper-cases to I, a
    full-width digit is a digit); a \<open>char\<close> above 127 stands for none of these here, and
    what is proved of the parsers for every text is stated for ASCII text.
  \<^item> \<^verbatim>\<open>int(s)\<close> is the language's conversion, without the interpreter's limit on the
    number of digits of a literal.
  \<^item> A float scalar of a document is held as the text \<^verbatim>\<open>repr\<close> prints for it; the
    program only converts such a scalar to text, tests it for zero, or compares it with 1.
\<close>

subsection \<open>Exceptions\<close>

datatype exc = ValueError | TypeError | AttributeError | KeyError | OverflowError

definition ebind :: "exc + 'a \<Rightarrow> ('a \<Rightarrow> exc + 'b) \<Rightarrow> exc + 'b" where
  "ebind m f = (case m of Inl e \<Rightarrow> Inl e | Inr x \<Rightarrow> f x)"

subsection \<open>Strings\<close>

definition ascii_upper :: "char \<Rightarrow> char" where
  "ascii_upper c =
     (case map_of (zip ''abcdefghijklmnopqrstuvwxyz'' ''ABCDEFGHIJKLMNOPQRSTUVWXYZ'') c of
        Some u \<Rightarrow> u | None \<Rightarrow> c)"

definition ascii_lower :: "char \<Rightarrow> char" where
  "ascii_lower c =
     (case map_of (zip ''ABCDEFGHIJKLMNOPQRSTUVWXYZ'' ''abcdefghijklmnopqrstuvwxyz'') c of
        Some u \<Rightarrow> u | None \<Rightarrow> c)"

text \<open>\<^verbatim>\<open>s.upper()\<close> and \<^verbatim>\<open>s.lower()\<close>, on ASCII text.\<close>

definition upper :: "string \<Rightarrow> string" where
  "upper s = map ascii_upper s"

definition lower :: "string \<Rightarrow> string" where
  "lower s = map ascii_lower s"

text \<open>The text has only ASCII characters.\<close>

definition ascii :: "string \<Rightarrow> bool" where
  "ascii s = list_all (\<lambda>c. (of_char c :: nat) < 128) s"

text \<open>\<^verbatim>\<open>s.endswith(t)\<close>.\<close>

definition endswith :: "string \<Rightarrow> string \<Rightarrow> bool" where
  "endswith s t = (length t \<le> length s \<and> drop (length s - length t) s = t)"

text \<open>\<^verbatim>\<open>s[:-n]\<close> for a positive \<open>n\<close>: the text without its last \<open>n\<close> characters.\<close>

definition drop_last :: "nat \<Rightarrow> string \<Rightarrow> string" where
  "drop_last n s = take (length s - n) s"

text \<open>The white space that \<^verbatim>\<open>int\<close> and \<^verbatim>\<open>float\<close> strip from both ends.\<close>

definition is_space :: "char \<Rightarrow> bool" where
  "is_space c = (c \<in> set [CHR 0x09, CHR 0x0A, CHR 0x0B, CHR 0x0C, CHR 0x0D, CHR '' ''])"

definition strip :: "string \<Rightarrow> string" where
  "strip s = rev (dropWhile is_space (rev (dropWhile is_space s)))"

definition digit_val :: "char \<Rightarrow> int option" where
  "digit_val c = map_of (zip ''0123456789'' [0, 1, 2, 3, 4, 5, 6, 7, 8, 9]) c"

definition is_digit :: "char \<Rightarrow> bool" where
  "is_digit c = (digit_val c \<noteq> None)"

text \<open>
  Numeric literals may group digits with single underscores; an underscore is legal only
  between two digits. The flag says whether the character before was a digit.
\<close>

fun remove_underscores_from :: "bool \<Rightarrow> string \<Rightarrow> string option" where
  "remove_underscores_from prev [] = Some []"
| "remove_underscores_from prev (c # cs) =
     (if c = CHR ''_'' then
        (if prev \<and> (case cs of [] \<Rightarrow> False | d # ds \<Rightarrow> is_digit d)
         then remove_underscores_from False cs else None)
      else map_option ((#) c) (remove_underscores_from (is_digit c) cs))"

definition remove_underscores :: "string \<Rightarrow> string option" where
  "remove_underscores s = remove_underscores_from False s"

text \<open>The number a run of digits denotes, read from the left with an accumulator.\<close>

fun int_of_digits_from :: "int \<Rightarrow> string \<Rightarrow> int" where
  "int_of_digits_from n [] = n"
| "int_of_digits_from n (c # cs) =
     int_of_digits_from (10 * n + (case digit_val c of Some v \<Rightarrow> v | None \<Rightarrow> 0)) cs"

definition int_of_digits :: "string \<Rightarrow> int" where
  "int_of_digits s = int_of_digits_from 0 s"

text \<open>An optional sign in front: whether it is a minus, and the rest.\<close>

definition split_sign :: "string \<Rightarrow> bool \<times> string" where
  "split_sign s =
     (case s of
        [] \<Rightarrow> (False, [])
      | c # cs \<Rightarrow> if c = CHR ''-'' then (True, cs)
                  else if c = CHR ''+'' then (False, cs) else (False, s))"

text \<open>
  \<^verbatim>\<open>int(s)\<close> for a string of ASCII text, base 10: raises \<^verbatim>\<open>ValueError\<close> on
  anything else.
\<close>

definition py_int :: "string \<Rightarrow> exc + int" where
  "py_int s =
     (case split_sign (strip s) of
        (neg, body) \<Rightarrow>
          (case remove_underscores body of
             None \<Rightarrow> Inl ValueError
           | Some ds \<Rightarrow>
               if ds = [] \<or> \<not> list_all is_digit ds then Inl ValueError
               else Inr (if neg then - int_of_digits ds else int_of_digits ds)))"

text \<open>Decimal text of a number, as \<^verbatim>\<open>str\<close> prints an \<^verbatim>\<open>int\<close>.\<close>

definition digit_char :: "int \<Rightarrow> char" where
  "digit_char n = ''0123456789abcdef'' ! nat (n mod 16)"

function show_digits :: "int \<Rightarrow> string" where
  "show_digits n =
     (if n < 10 then [digit_char n] else show_digits (n div 10) @ [digit_char (n mod 10)])"
  by pat_completeness auto
termination
  by (relation "measure nat") auto

declare show_digits.simps [simp del]

definition show_int :: "int \<Rightarrow> string" where
  "show_int i = (if i < 0 then CHR ''-'' # show_digits (- i) else show_digits i)"

text \<open>\<^verbatim>\<open>sep.join(xs)\<close>.\<close>

fun join :: "string \<Rightarrow> string list \<Rightarrow> string" where
  "join sep [] = []"
| "join sep [x] = x"
| "join sep (x # y # ys) = x @ sep @ join sep (y # ys)"

subsection \<open>Documents\<close>

text \<open>
  What \<^verbatim>\<open>yaml.safe_load\<close> returns: \<^verbatim>\<open>None\<close>, a \<^verbatim>\<open>bool\<close>, an \<^verbatim>\<open>int\<close>, a
  \<^verbatim>\<open>float\<close>, a \<^verbatim>\<open>str\<close>, a \<^verbatim>\<open>list\<close> or a \<^verbatim>\<open>dict\<close>. A dict is the list of its items
  in insertion order; a lookup takes the first item with the key.
\<close>

datatype yaml =
    YNull
  | YBool bool
  | YInt int
  | YFloat string
  | YStr string
  | YList "yaml list"
  | YMap "(yaml \<times> yaml) list"

text \<open>\<^verbatim>\<open>repr\<close> of a string: the quote is chosen as Python chooses it.\<close>

definition repr_char :: "char \<Rightarrow> char \<Rightarrow> string" where
  "repr_char q c =
     (let n = (of_char c :: int) in
      if c = q \<or> c = CHR 0x5C then [CHR 0x5C, c]
      else if c = CHR 0x09 then [CHR 0x5C, CHR ''t'']
      else if c = CHR 0x0A then [CHR 0x5C, CHR ''n'']
      else if c = CHR 0x0D then [CHR 0x5C, CHR ''r'']
      else if n < 32 \<or> n = 127
        then [CHR 0x5C, CHR ''x'', digit_char (n div 16), digit_char (n mod 16)]
      else [c])"

definition repr_str :: "string \<Rightarrow> string" where
  "repr_str s =
     (let q = (if CHR 0x27 \<in> set s \<and> CHR 0x22 \<notin> set s then CHR 0x22 else CHR 0x27)
      in [q] @ concat (map (repr_char q) s) @ [q])"

fun py_repr :: "yaml \<Rightarrow> string" where
  "py_repr YNull = ''None''"
| "py_repr (YBool b) = (if b then ''True'' else ''False'')"
| "py_repr (YInt i) = show_int i"
| "py_repr (YFloat r) = r"
| "py_repr (YStr s) = repr_str s"
| "py_repr (YList xs) = ''['' @ join '', '' (map py_repr xs) @ '']''"
| "py_repr (YMap kvs) =
     ''{'' @ join '', '' (map (\<lambda>(k, v). py_repr k @ '': '' @ py_repr v) kvs) @ ''}''"

text \<open>\<^verbatim>\<open>str(v)\<close>, which is also what an f-string prints for \<^verbatim>\<open>{v}\<close>.\<close>

definition py_str :: "yaml \<Rightarrow> string" where
  "py_str v = (case v of YStr s \<Rightarrow> s | _ \<Rightarrow> py_repr v)"

subsection \<open>Floats\<close>

text \<open>
  A \<^verbatim>\<open>float\<close> is an IEEE 754 binary64 number: \<open>Fin neg m e\<close> stands for
  \<open>\<plusminus> m * 2 ^ e\<close>, \<open>Inf neg\<close> for an infinity and \<open>NaN\<close> for not-a-number.
  Conversions round to nearest, ties to even.
\<close>

datatype flt = Fin bool int int | Inf bool | NaN

text \<open>\<open>a / b\<close> rounded to the nearest integer, ties to even (\<open>0 \<le> a\<close>, \<open>0 < b\<close>).\<close>

definition rne_div :: "int \<Rightarrow> int \<Rightarrow> int" where
  "rne_div a b =
     (let q = a div b; r = a mod b
      in if b < 2 * r \<or> (2 * r = b \<and> odd q) then q + 1 else q)"

text \<open>The number of binary digits of a positive integer.\<close>

function bit_length :: "int \<Rightarrow> int" where
  "bit_length n = (if n \<le> 0 then 0 else 1 + bit_length (n div 2))"
  by pat_completeness auto
termination
  by (relation "measure nat") auto

declare bit_length.simps [simp del]

text \<open>\<open>a * 2 ^ k / b\<close> for an exponent of either sign, as a fraction of integers.\<close>

definition scale2 :: "int \<Rightarrow> int \<Rightarrow> int \<Rightarrow> int \<times> int" where
  "scale2 a b k = (if 0 \<le> k then (a * 2 ^ nat k, b) else (a, b * 2 ^ nat (- k)))"

text \<open>\<open>\<lfloor>log\<^sub>2 (a / b)\<rfloor>\<close> for positive \<open>a\<close> and \<open>b\<close>.\<close>

definition ilog2_ratio :: "int \<Rightarrow> int \<Rightarrow> int" where
  "ilog2_ratio a b =
     (let d = bit_length a - bit_length b
      in case scale2 a b (- d) of (x, y) \<Rightarrow> if y \<le> x then d else d - 1)"

text \<open>
  The double nearest to \<open>a / b\<close> (\<open>0 \<le> a\<close>, \<open>0 < b\<close>): 53 significant bits, the least
  exponent \<open>- 1074\<close> (subnormal numbers), an infinity from \<open>2 ^ 1024\<close> on.
\<close>

definition round_double :: "bool \<Rightarrow> int \<Rightarrow> int \<Rightarrow> flt" where
  "round_double neg a b =
     (if a = 0 then Fin neg 0 0
      else
        let p = max (ilog2_ratio a b) (- 1022) - 52;
            m = (case scale2 a b (- p) of (x, y) \<Rightarrow> rne_div x y)
        in if 971 < p \<or> (p = 971 \<and> 2 ^ 53 \<le> m) then Inf neg else Fin neg m p)"

text \<open>
  \<^verbatim>\<open>float(s)\<close> for a string: white space stripped, a sign, then \<^verbatim>\<open>inf\<close>,
  \<^verbatim>\<open>infinity\<close>, \<^verbatim>\<open>nan\<close> or a decimal number with an optional fraction and exponent.
\<close>

definition parse_exponent :: "string \<Rightarrow> int option" where
  "parse_exponent r =
     (case r of
        [] \<Rightarrow> Some 0
      | c # cs \<Rightarrow>
          if c = CHR ''e'' \<or> c = CHR ''E'' then
            (case split_sign cs of
               (neg, ds) \<Rightarrow>
                 if ds = [] \<or> \<not> list_all is_digit ds then None
                 else Some (if neg then - int_of_digits ds else int_of_digits ds))
          else None)"

definition py_float :: "string \<Rightarrow> exc + flt" where
  "py_float s =
     (case split_sign (strip s) of
        (neg, body) \<Rightarrow>
          if lower body = ''inf'' \<or> lower body = ''infinity'' then Inr (Inf neg)
          else if lower body = ''nan'' then Inr NaN
          else
            (case remove_underscores body of
               None \<Rightarrow> Inl ValueError
             | Some u \<Rightarrow>
                 let ip = takeWhile is_digit u;
                     r1 = dropWhile is_digit u;
                     dot = (r1 \<noteq> [] \<and> hd r1 = CHR ''.'');
                     fp = (if dot then takeWhile is_digit (tl r1) else []);
                     r2 = (if dot then dropWhile is_digit (tl r1) else r1)
                 in if ip = [] \<and> fp = [] then Inl ValueError
                    else
                      (case parse_exponent r2 of
                         None \<Rightarrow> Inl ValueError
                       | Some x \<Rightarrow>
                           (case scale2 (int_of_digits (ip @ fp)) 1 0 of
                              (a, b) \<Rightarrow>
                                let k = x - int (length fp)
                                in if 0 \<le> k then Inr (round_double neg (a * 10 ^ nat k) b)
                                   else Inr (round_double neg a (b * 10 ^ nat (- k)))))))"

text \<open>The product of two floats when the second is the integer \<open>c > 0\<close>, exactly rounded.\<close>

definition flt_times :: "flt \<Rightarrow> int \<Rightarrow> flt" where
  "flt_times x c =
     (case x of
        Fin neg m e \<Rightarrow> (case scale2 (m * c) 1 e of (a, b) \<Rightarrow> round_double neg a b)
      | Inf neg \<Rightarrow> Inf neg
      | NaN \<Rightarrow> NaN)"

text \<open>\<^verbatim>\<open>int(x)\<close> for a float: truncation toward zero; infinities and NaN raise.\<close>

definition flt_to_int :: "flt \<Rightarrow> exc + int" where
  "flt_to_int x =
     (case x of
        Fin neg m e \<Rightarrow>
          (case scale2 m 1 e of (a, b) \<Rightarrow> Inr (if neg then - (a div b) else a div b))
      | Inf neg \<Rightarrow> Inl OverflowError
      | NaN \<Rightarrow> Inl ValueError)"

text \<open>\<^verbatim>\<open>x < 1\<close> for a float.\<close>

definition flt_less_one :: "flt \<Rightarrow> bool" where
  "flt_less_one x =
     (case x of
        Fin neg m e \<Rightarrow> neg \<or> (case scale2 m 1 e of (a, b) \<Rightarrow> a < b)
      | Inf neg \<Rightarrow> neg
      | NaN \<Rightarrow> False)"

text \<open>\<^verbatim>\<open>x != 0\<close> for a float, which is its truth value.\<close>

definition flt_nonzero :: "flt \<Rightarrow> bool" where
  "flt_nonzero x = (case x of Fin neg m e \<Rightarrow> m \<noteq> 0 | Inf neg \<Rightarrow> True | NaN \<Rightarrow> True)"

subsection \<open>Unit parsers\<close>

text \<open>The truth value of a document value.\<close>

definition truthy :: "yaml \<Rightarrow> bool" where
  "truthy v =
     (case v of
        YNull \<Rightarrow> False
      | YBool b \<Rightarrow> b
      | YInt i \<Rightarrow> i \<noteq> 0
      | YFloat r \<Rightarrow> (case py_float r of Inr x \<Rightarrow> flt_nonzero x | Inl e \<Rightarrow> True)
      | YStr s \<Rightarrow> s \<noteq> []
      | YList xs \<Rightarrow> xs \<noteq> []
      | YMap kvs \<Rightarrow> kvs \<noteq> [])"

text \<open>\<^verbatim>\<open>_parse_cpu_value\<close>: a quantity in millicores.\<close>

definition parse_cpu_value :: "yaml \<Rightarrow> exc + int" where
  "parse_cpu_value cpu_str =
     (if \<not> truthy cpu_str then Inr 0
      else
        let cpu_str = lower (py_str cpu_str)
        in if endswith cpu_str ''m'' then py_int (drop_last 1 cpu_str)
           else ebind (py_float cpu_str) (\<lambda>x. flt_to_int (flt_times x 1000)))"

text \<open>\<^verbatim>\<open>_parse_memory_size\<close>: a quantity in MB.\<close>

definition parse_memory_size :: "yaml \<Rightarrow> exc + int" where
  "parse_memory_size memory_str =
     (if \<not> truthy memory_str then Inr 0
      else
        let memory_str = upper (py_str memory_str)
        in if endswith memory_str ''MI'' then py_int (drop_last 2 memory_str)
           else if endswith memory_str ''GI''
             then ebind (py_int (drop_last 2 memory_str)) (\<lambda>n. Inr (n * 1024))
           else if endswith memory_str ''M'' then py_int (drop_last 1 memory_str)
           else if endswith memory_str ''G''
             then ebind (py_int (drop_last 1 memory_str)) (\<lambda>n. Inr (n * 1024))
           else py_int memory_str)"

text \<open>
  \<^verbatim>\<open>_parse_storage_size\<close>: a quantity in MB, or \<^verbatim>\<open>None\<close>. Only the conversion of
  an unsuffixed text is inside the \<^verbatim>\<open>try\<close>.
\<close>

definition parse_storage_size :: "yaml \<Rightarrow> exc + int option" where
  "parse_storage_size storage_str =
     (if \<not> truthy storage_str then Inr None
      else
        let storage_str = upper (py_str storage_str)
        in if endswith storage_str ''GI''
             then ebind (py_int (drop_last 2 storage_str)) (\<lambda>n. Inr (Some (n * 1024)))
           else if endswith storage_str ''G''
             then ebind (py_int (drop_last 1 storage_str)) (\<lambda>n. Inr (Some (n * 1024)))
           else if endswith storage_str ''MI''
             then ebind (py_int (drop_last 2 storage_str)) (\<lambda>n. Inr (Some n))
           else if endswith storage_str ''M''
             then ebind (py_int (drop_last 1 storage_str)) (\<lambda>n. Inr (Some n))
           else
             (case py_int storage_str of
                Inr n \<Rightarrow> Inr (Some n)
              | Inl e \<Rightarrow> if e = ValueError then Inr None else Inl e))"

subsection \<open>Dynamic access to documents\<close>

text \<open>\<^verbatim>\<open>sub in s\<close> for two strings: \<open>sub\<close> occurs in \<open>s\<close>.\<close>

fun contains_text :: "string \<Rightarrow> string \<Rightarrow> bool" where
  "contains_text sub [] = (sub = [])"
| "contains_text sub (c # cs) = (prefix sub (c # cs) \<or> contains_text sub cs)"

text \<open>
  \<^verbatim>\<open>k in c\<close> for a string \<open>k\<close>: a key of a dict, an element of a list, a part of a
  string; the other values are not containers.
\<close>

definition py_contains :: "string \<Rightarrow> yaml \<Rightarrow> exc + bool" where
  "py_contains k c =
     (case c of
        YMap kvs \<Rightarrow> Inr (map_of kvs (YStr k) \<noteq> None)
      | YList xs \<Rightarrow> Inr (YStr k \<in> set xs)
      | YStr s \<Rightarrow> Inr (contains_text k s)
      | _ \<Rightarrow> Inl TypeError)"

text \<open>\<^verbatim>\<open>c.get(k, d)\<close>: only a dict has the method.\<close>

definition py_get :: "yaml \<Rightarrow> string \<Rightarrow> yaml \<Rightarrow> exc + yaml" where
  "py_get c k d =
     (case c of
        YMap kvs \<Rightarrow> Inr (case map_of kvs (YStr k) of Some v \<Rightarrow> v | None \<Rightarrow> d)
      | _ \<Rightarrow> Inl AttributeError)"

text \<open>\<^verbatim>\<open>c[k]\<close> for a string \<open>k\<close>.\<close>

definition py_item :: "yaml \<Rightarrow> string \<Rightarrow> exc + yaml" where
  "py_item c k =
     (case c of
        YMap kvs \<Rightarrow> (case map_of kvs (YStr k) of Some v \<Rightarrow> Inr v | None \<Rightarrow> Inl KeyError)
      | _ \<Rightarrow> Inl TypeError)"

text \<open>The elements a \<^verbatim>\<open>for\<close> loop visits.\<close>

definition py_iter :: "yaml \<Rightarrow> exc + yaml list" where
  "py_iter c =
     (case c of
        YList xs \<Rightarrow> Inr xs
      | YMap kvs \<Rightarrow> Inr (map fst kvs)
      | YStr s \<Rightarrow> Inr (map (\<lambda>ch. YStr [ch]) s)
      | _ \<Rightarrow> Inl TypeError)"

text \<open>\<^verbatim>\<open>v < 1\<close>: numbers compare, a \<^verbatim>\<open>bool\<close> counts as 0 or 1.\<close>

definition py_less_one :: "yaml \<Rightarrow> exc + bool" where
  "py_less_one v =
     (case v of
        YInt i \<Rightarrow> Inr (i < 1)
      | YBool b \<Rightarrow> Inr (\<not> b)
      | YFloat r \<Rightarrow> (case py_float r of Inr x \<Rightarrow> Inr (flt_less_one x) | Inl e \<Rightarrow> Inl e)
      | _ \<Rightarrow> Inl TypeError)"

text \<open>\<^verbatim>\<open>k in a and k in b\<close>.\<close>

definition in_both :: "string \<Rightarrow> yaml \<Rightarrow> yaml \<Rightarrow> exc + bool" where
  "in_both k a b = ebind (py_contains k a) (\<lambda>x. if x then py_contains k b else Inr False)"

text \<open>\<^verbatim>\<open>k in c and c[k].get('enabled')\<close>, as a condition.\<close>

definition present_and_enabled :: "string \<Rightarrow> yaml \<Rightarrow> exc + bool" where
  "present_and_enabled k c =
     ebind (py_contains k c) (\<lambda>x.
       if x then
         ebind (py_item c k) (\<lambda>d.
         ebind (py_get d ''enabled'' YNull) (\<lambda>e. Inr (truthy e)))
       else Inr False)"

subsection \<open>The validator's state\<close>

text \<open>
  \<^verbatim>\<open>self.errors\<close> and \<^verbatim>\<open>self.warnings\<close>. A method is a function from the state to
  its outcome (a raise or a result) and the state it leaves; the state a raise leaves is
  kept, since the lists are attributes of the object.
\<close>

record vstate =
  errors :: "string list"
  warnings :: "string list"

type_synonym 'a run = "vstate \<Rightarrow> (exc + 'a) \<times> vstate"

definition ret :: "'a \<Rightarrow> 'a run" where
  "ret x = (\<lambda>s. (Inr x, s))"

definition lift :: "exc + 'a \<Rightarrow> 'a run" where
  "lift r = (\<lambda>s. (r, s))"

definition bnd :: "'a run \<Rightarrow> ('a \<Rightarrow> 'b run) \<Rightarrow> 'b run" where
  "bnd m f = (\<lambda>s. case m s of (Inl e, s') \<Rightarrow> (Inl e, s') | (Inr x, s') \<Rightarrow> f x s')"

definition append_error :: "string \<Rightarrow> unit run" where
  "append_error msg = (\<lambda>s. (Inr (), s\<lparr>errors := errors s @ [msg]\<rparr>))"

definition append_warning :: "string \<Rightarrow> unit run" where
  "append_warning msg = (\<lambda>s. (Inr (), s\<lparr>warnings := warnings s @ [msg]\<rparr>))"

text \<open>\<^verbatim>\<open>len(self.errors) == 0\<close>.\<close>

definition no_errors :: "bool run" where
  "no_errors = (\<lambda>s. (Inr (errors s = []), s))"

subsection \<open>Section validators\<close>

text \<open>\<^verbatim>\<open>_validate_resource_ratio\<close>: the block for CPU, then the block for memory.\<close>

definition ratio_cpu :: "yaml \<Rightarrow> yaml \<Rightarrow> string \<Rightarrow> unit run" where
  "ratio_cpu requests limits service =
     bnd (lift (in_both ''cpu'' requests limits)) (\<lambda>b.
       if b then
         bnd (lift (py_item requests ''cpu'')) (\<lambda>rq.
         bnd (lift (parse_cpu_value rq)) (\<lambda>req_cpu.
         bnd (lift (py_item limits ''cpu'')) (\<lambda>lm.
         bnd (lift (parse_cpu_value lm)) (\<lambda>lim_cpu.
           if lim_cpu < req_cpu then
             append_error (service @ '': CPU limit ('' @ py_str lm
               @ '') is less than request ('' @ py_str rq @ '')'')
           else if req_cpu * 4 < lim_cpu then
             append_warning
               (service @ '': CPU limit is much higher than request - consider adjusting'')
           else ret ()))))
       else ret ())"

definition ratio_memory :: "yaml \<Rightarrow> yaml \<Rightarrow> string \<Rightarrow> unit run" where
  "ratio_memory requests limits service =
     bnd (lift (in_both ''memory'' requests limits)) (\<lambda>b.
       if b then
         bnd (lift (py_item requests ''memory'')) (\<lambda>rq.
         bnd (lift (parse_memory_size rq)) (\<lambda>req_mem.
         bnd (lift (py_item limits ''memory'')) (\<lambda>lm.
         bnd (lift (parse_memory_size lm)) (\<lambda>lim_mem.
           if lim_mem < req_mem then
             append_error (service @ '': Memory limit ('' @ py_str lm
               @ '') is less than request ('' @ py_str rq @ '')'')
           else if req_mem * 4 < lim_mem then
             append_warning
               (service @ '': Memory limit is much higher than request - consider adjusting'')
           else ret ()))))
       else ret ())"

definition validate_resource_ratio :: "yaml \<Rightarrow> string \<Rightarrow> unit run" where
  "validate_resource_ratio resources service =
     bnd (lift (py_get resources ''requests'' (YMap []))) (\<lambda>requests.
     bnd (lift (py_get resources ''limits'' (YMap []))) (\<lambda>limits.
     bnd (ratio_cpu requests limits service) (\<lambda>u.
     ratio_memory requests limits service)))"

text \<open>\<^verbatim>\<open>_validate_api_config\<close>.\<close>

definition has_requests_and_limits :: "yaml \<Rightarrow> exc + bool" where
  "has_requests_and_limits resources =
     ebind (py_contains ''requests'' resources) (\<lambda>x.
       if x then py_contains ''limits'' resources else Inr False)"

definition validate_api_config :: "yaml \<Rightarrow> unit run" where
  "validate_api_config api_config =
     bnd (lift (ebind (py_get api_config ''replicaCount'' (YInt 1)) py_less_one)) (\<lambda>low.
     bnd (if low then append_error ''API replica count must be at least 1'' else ret ()) (\<lambda>u.
     bnd (lift (py_get api_config ''resources'' (YMap []))) (\<lambda>resources.
     bnd (lift (has_requests_and_limits resources)) (\<lambda>both.
     bnd (if both then validate_resource_ratio resources ''api'' else ret ()) (\<lambda>u.
     bnd (lift (present_and_enabled ''healthCheck'' api_config)) (\<lambda>hc.
       if hc then
         bnd (lift (py_item api_config ''healthCheck'')) (\<lambda>health_check.
         bnd (lift (py_get health_check ''path'' YNull)) (\<lambda>path.
           if \<not> truthy path then append_warning ''Health check path not specified for API''
           else ret ()))
       else ret ()))))))"

text \<open>
  \<^verbatim>\<open>_validate_database_config\<close>. The condition on the size is
  \<^verbatim>\<open>not size or not self._parse_storage_size(size)\<close>: the parser is not called on a
  false size, and its result is tested for truth, so \<^verbatim>\<open>None\<close> and 0 both count.
\<close>

definition primary_persistence :: "yaml \<Rightarrow> exc + bool" where
  "primary_persistence db_config =
     ebind (py_contains ''primary'' db_config) (\<lambda>x.
       if x then ebind (py_item db_config ''primary'') (py_contains ''persistence'')
       else Inr False)"

definition size_invalid :: "yaml \<Rightarrow> exc + bool" where
  "size_invalid sz =
     (if \<not> truthy sz then Inr True
      else ebind (parse_storage_size sz) (\<lambda>r.
             Inr (case r of None \<Rightarrow> True | Some n \<Rightarrow> n = 0)))"

text \<open>The part under \<^verbatim>\<open># Check persistence\<close>.\<close>

definition check_persistence :: "yaml \<Rightarrow> unit run" where
  "check_persistence db_config =
     bnd (lift (primary_persistence db_config)) (\<lambda>b.
       if b then
         bnd (lift (ebind (py_item db_config ''primary'') (\<lambda>p. py_item p ''persistence'')))
           (\<lambda>persistence.
         bnd (lift (py_get persistence ''enabled'' YNull)) (\<lambda>enabled.
           if truthy enabled then
             bnd (lift (py_get persistence ''size'' (YStr []))) (\<lambda>sz.
             bnd (lift (size_invalid sz)) (\<lambda>bad.
               if bad then append_error ''Invalid database storage size'' else ret ()))
           else ret ()))
       else ret ())"

text \<open>The part under \<^verbatim>\<open># Check authentication\<close>.\<close>

definition check_authentication :: "yaml \<Rightarrow> unit run" where
  "check_authentication db_config =
     bnd (lift (py_get db_config ''auth'' (YMap []))) (\<lambda>auth.
     bnd (lift (py_get auth ''database'' YNull)) (\<lambda>database.
     bnd (if \<not> truthy database then append_warning ''Database name not specified''
          else ret ()) (\<lambda>u.
     bnd (lift (py_get auth ''postgresPassword'' (YStr []))) (\<lambda>password.
       if password = YStr ''changeme'' then
         append_warning ''Default database password detected - change for production''
       else ret ()))))"

definition validate_database_config :: "yaml \<Rightarrow> unit run" where
  "validate_database_config db_config =
     bnd (check_persistence db_config) (\<lambda>u. check_authentication db_config)"

text \<open>\<^verbatim>\<open>_validate_ai_config\<close>: the block of vLLM, then the block of the audio processor.\<close>

definition vllm_memory_low :: "yaml \<Rightarrow> exc + bool" where
  "vllm_memory_low resources =
     ebind (py_contains ''requests'' resources) (\<lambda>x.
       if x then
         ebind (py_item resources ''requests'') (\<lambda>rq.
         ebind (py_get rq ''memory'' (YStr [])) (\<lambda>memory.
           if truthy memory then ebind (parse_memory_size memory) (\<lambda>n. Inr (n < 1024))
           else Inr False))
       else Inr False)"

definition validate_vllm :: "yaml \<Rightarrow> unit run" where
  "validate_vllm ai_config =
     bnd (lift (present_and_enabled ''vllm'' ai_config)) (\<lambda>en.
       if en then
         bnd (lift (py_item ai_config ''vllm'')) (\<lambda>vllm.
         bnd (lift (py_get vllm ''model'' (YStr []))) (\<lambda>model.
         bnd (if \<not> truthy model then append_error ''vLLM model not specified'' else ret ())
           (\<lambda>u.
         bnd (lift (py_get vllm ''resources'' (YMap []))) (\<lambda>resources.
         bnd (lift (vllm_memory_low resources)) (\<lambda>low.
         bnd (if low then
                append_warning ''vLLM memory request may be too low for model loading''
              else ret ()) (\<lambda>u.
         bnd (lift (py_get vllm ''persistence'' (YMap []))) (\<lambda>persistence.
         bnd (lift (py_get persistence ''enabled'' YNull)) (\<lambda>enabled.
           if \<not> truthy enabled then
             append_warning
               ''vLLM persistence disabled - models will be re-downloaded on restart''
           else ret ()))))))))
       else ret ())"

definition validate_audio :: "yaml \<Rightarrow> unit run" where
  "validate_audio ai_config =
     bnd (lift (present_and_enabled ''audioProcessor'' ai_config)) (\<lambda>en.
       if en then
         bnd (lift (py_item ai_config ''audioProcessor'')) (\<lambda>audio.
         bnd (lift (py_get audio ''env'' (YMap []))) (\<lambda>env.
         bnd (lift (py_get env ''DIART_MODEL'' YNull)) (\<lambda>model.
           if \<not> truthy model then append_warning ''Audio processor model not specified''
           else ret ())))
       else ret ())"

definition validate_ai_config :: "yaml \<Rightarrow> unit run" where
  "validate_ai_config ai_config = bnd (validate_vllm ai_config) (\<lambda>u. validate_audio ai_config)"

text \<open>
  \<^verbatim>\<open>_validate_resource_limits\<close>. Both loops end in the same four lines, which add the
  requests of one \<^verbatim>\<open>resources\<close> block to the two totals.
\<close>

definition add_requests :: "yaml \<Rightarrow> int \<times> int \<Rightarrow> exc + (int \<times> int)" where
  "add_requests resources tot =
     ebind (py_contains ''requests'' resources) (\<lambda>x.
       if x then
         ebind (py_item resources ''requests'') (\<lambda>rq.
         ebind (ebind (py_get rq ''cpu'' (YStr ''0'')) parse_cpu_value) (\<lambda>cpu.
         ebind (py_item resources ''requests'') (\<lambda>rq'.
         ebind (ebind (py_get rq' ''memory'' (YStr ''0'')) parse_memory_size) (\<lambda>memory.
           Inr (fst tot + cpu, snd tot + memory)))))
       else Inr tot)"

text \<open>The loop over \<^verbatim>\<open>['api', 'frontend']\<close>.\<close>

fun collect_services :: "yaml \<Rightarrow> string list \<Rightarrow> int \<times> int \<Rightarrow> exc + (int \<times> int)" where
  "collect_services values [] tot = Inr tot"
| "collect_services values (service # rest) tot =
     ebind (py_contains service values) (\<lambda>x.
       if x then
         ebind (py_item values service) (\<lambda>sv.
         ebind (py_get sv ''resources'' (YMap [])) (\<lambda>resources.
         ebind (add_requests resources tot) (collect_services values rest)))
       else collect_services values rest tot)"

text \<open>
  The loop over \<^verbatim>\<open>['postgresql', 'redis']\<close>: the resources are those of
  \<^verbatim>\<open>primary\<close> for the database and of \<^verbatim>\<open>master\<close> for the cache; a service
  without that part is skipped (\<^verbatim>\<open>continue\<close>).
\<close>

definition part_resources :: "yaml \<Rightarrow> string \<Rightarrow> string \<Rightarrow> exc + yaml option" where
  "part_resources values service part =
     ebind (py_item values service) (\<lambda>sv.
     ebind (py_item sv part) (\<lambda>p.
     ebind (py_get p ''resources'' (YMap [])) (\<lambda>resources. Inr (Some resources))))"

definition backing_resources :: "yaml \<Rightarrow> string \<Rightarrow> exc + yaml option" where
  "backing_resources values service =
     ebind (if service = ''postgresql''
            then ebind (py_item values service) (py_contains ''primary'')
            else Inr False) (\<lambda>is_db.
       if is_db then part_resources values service ''primary''
       else
         ebind (if service = ''redis''
                then ebind (py_item values service) (py_contains ''master'')
                else Inr False) (\<lambda>is_cache.
           if is_cache then part_resources values service ''master'' else Inr None))"

fun collect_backing :: "yaml \<Rightarrow> string list \<Rightarrow> int \<times> int \<Rightarrow> exc + (int \<times> int)" where
  "collect_backing values [] tot = Inr tot"
| "collect_backing values (service # rest) tot =
     ebind (py_contains service values) (\<lambda>x.
       if x then
         ebind (backing_resources values service) (\<lambda>r.
           case r of
             None \<Rightarrow> collect_backing values rest tot
           | Some resources \<Rightarrow>
               ebind (add_requests resources tot) (collect_backing values rest))
       else collect_backing values rest tot)"

definition total_requests :: "yaml \<Rightarrow> exc + (int \<times> int)" where
  "total_requests values =
     ebind (collect_services values [''api'', ''frontend''] (0, 0))
       (collect_backing values [''postgresql'', ''redis''])"

definition validate_resource_limits :: "yaml \<Rightarrow> unit run" where
  "validate_resource_limits values =
     bnd (lift (total_requests values)) (\<lambda>tot.
     bnd (if 4000 < fst tot then
            append_warning (''Total CPU requests ('' @ show_int (fst tot)
              @ ''m) may exceed development machine capacity'')
          else ret ()) (\<lambda>u.
       if 8192 < snd tot then
         append_warning (''Total memory requests ('' @ show_int (snd tot)
           @ ''Mi) may exceed development machine capacity'')
       else ret ()))"

text \<open>
  \<^verbatim>\<open>_get_service_storage_size\<close>: the size of the volume of one service in MB, 0
  when persistence is not enabled or the size is \<^verbatim>\<open>None\<close>.
\<close>

definition nested_get :: "yaml \<Rightarrow> string \<Rightarrow> string \<Rightarrow> exc + yaml" where
  "nested_get values a b =
     ebind (py_get values a (YMap [])) (\<lambda>x.
     ebind (py_get x b (YMap [])) (\<lambda>y. py_get y ''persistence'' (YMap [])))"

definition persistence_size :: "yaml \<Rightarrow> exc + int" where
  "persistence_size persistence =
     ebind (py_get persistence ''enabled'' YNull) (\<lambda>enabled.
       if truthy enabled then
         ebind (py_get persistence ''size'' (YStr [])) (\<lambda>sz.
         ebind (parse_storage_size sz) (\<lambda>r.
           Inr (case r of None \<Rightarrow> 0 | Some n \<Rightarrow> if n = 0 then 0 else n)))
       else Inr 0)"

definition get_service_storage_size :: "yaml \<Rightarrow> string \<Rightarrow> exc + int" where
  "get_service_storage_size values service =
     (if service = ''postgresql''
        then ebind (nested_get values ''postgresql'' ''primary'') persistence_size
      else if service = ''redis''
        then ebind (nested_get values ''redis'' ''master'') persistence_size
      else if service = ''vllm''
        then ebind (nested_get values ''ai'' ''vllm'') persistence_size
      else Inr 0)"

text \<open>
  \<^verbatim>\<open>f"{total_storage/1024:.1f}"\<close>: the quotient of two integers is the nearest double
  (a quotient too large for a double raises), and the format prints the double rounded to
  one decimal, ties to even.
\<close>

definition py_true_div :: "int \<Rightarrow> int \<Rightarrow> exc + flt" where
  "py_true_div n d =
     (case round_double (n < 0) \<bar>n\<bar> d of
        Inf neg \<Rightarrow> Inl OverflowError
      | x \<Rightarrow> Inr x)"

definition format_1f :: "flt \<Rightarrow> string" where
  "format_1f x =
     (case x of
        Fin neg m e \<Rightarrow>
          (case scale2 (m * 10) 1 e of
             (a, b) \<Rightarrow>
               let t = rne_div a b
               in (if neg then ''-'' else []) @ show_digits (t div 10) @ ''.''
                    @ [digit_char (t mod 10)])
      | Inf neg \<Rightarrow> (if neg then ''-inf'' else ''inf'')
      | NaN \<Rightarrow> ''nan'')"

text \<open>\<^verbatim>\<open>_validate_storage_config\<close>.\<close>

definition services_with_storage :: "yaml \<Rightarrow> exc + string list" where
  "services_with_storage values =
     ebind (ebind (py_contains ''ai'' values) (\<lambda>x.
              if x then ebind (py_item values ''ai'') (py_contains ''vllm'') else Inr False))
       (\<lambda>has_vllm.
          Inr (if has_vllm then [''postgresql'', ''redis'', ''vllm'']
               else [''postgresql'', ''redis'']))"

fun sum_storage :: "yaml \<Rightarrow> string list \<Rightarrow> int \<Rightarrow> exc + int" where
  "sum_storage values [] tot = Inr tot"
| "sum_storage values (service # rest) tot =
     ebind (get_service_storage_size values service) (\<lambda>storage_size.
       sum_storage values rest (if storage_size \<noteq> 0 then tot + storage_size else tot))"

definition total_storage :: "yaml \<Rightarrow> exc + int" where
  "total_storage values =
     ebind (services_with_storage values) (\<lambda>services. sum_storage values services 0)"

definition validate_storage_config :: "yaml \<Rightarrow> unit run" where
  "validate_storage_config values =
     bnd (lift (py_get values ''global'' (YMap []))) (\<lambda>global_config.
     bnd (lift (py_get global_config ''storageClass'' (YStr []))) (\<lambda>storage_class.
     bnd (if \<not> truthy storage_class then append_warning ''Global storage class not specified''
          else ret ()) (\<lambda>u.
     bnd (lift (total_storage values)) (\<lambda>tot.
       if 100 * 1024 < tot then
         bnd (lift (py_true_div tot 1024)) (\<lambda>gb.
           append_warning (''Total storage requests ('' @ format_1f gb
             @ ''GB) are quite large for development''))
       else ret ()))))"

subsection \<open>Files\<close>

text \<open>
  What the script sees of the file system: the project root, which paths exist, what
  \<^verbatim>\<open>yaml.safe_load\<close> makes of a file (\<open>Inl\<close> the text of the exception that
  \<^verbatim>\<open>open\<close> or the loader raised), and the files of the chart directory that match
  \<^verbatim>\<open>values*.yaml\<close>. A path is its text, with \<^verbatim>\<open>/\<close> between the parts.
\<close>

record env =
  project_root :: string
  path_exists :: "string \<Rightarrow> bool"
  load_yaml :: "string \<Rightarrow> string + yaml"
  glob_values :: "string list"

definition path_join :: "string \<Rightarrow> string \<Rightarrow> string" where
  "path_join p q = p @ ''/'' @ q"

definition helm_chart_dir :: "env \<Rightarrow> string" where
  "helm_chart_dir E =
     path_join (path_join (path_join (project_root E) ''infrastructure'') ''helm'') ''gmc-dev''"

subsection \<open>File validators\<close>

text \<open>\<^verbatim>\<open>validate_helm_values\<close>.\<close>

fun required_sections :: "yaml \<Rightarrow> string \<Rightarrow> string list \<Rightarrow> unit run" where
  "required_sections values values_file [] = ret ()"
| "required_sections values values_file (section # rest) =
     bnd (lift (py_contains section values)) (\<lambda>x.
     bnd (if \<not> x then
            append_error (''Missing required section '' @ [CHR 0x27] @ section @ [CHR 0x27]
              @ '' in '' @ values_file)
          else ret ()) (\<lambda>u.
     required_sections values values_file rest))"

definition validate_section :: "string \<Rightarrow> (yaml \<Rightarrow> unit run) \<Rightarrow> yaml \<Rightarrow> unit run" where
  "validate_section name validator values =
     bnd (lift (py_contains name values)) (\<lambda>x.
       if x then bnd (lift (py_item values name)) validator else ret ())"

definition validate_helm_values :: "env \<Rightarrow> string \<Rightarrow> bool run" where
  "validate_helm_values E values_file =
     (case load_yaml E values_file of
        Inl e \<Rightarrow>
          bnd (append_error (''Failed to parse '' @ values_file @ '': '' @ e)) (\<lambda>u. ret False)
      | Inr values \<Rightarrow>
          bnd (required_sections values values_file [''api'', ''postgresql'', ''redis''])
            (\<lambda>u.
          bnd (validate_section ''api'' validate_api_config values) (\<lambda>u.
          bnd (validate_section ''postgresql'' validate_database_config values) (\<lambda>u.
          bnd (validate_section ''ai'' validate_ai_config values) (\<lambda>u.
          bnd (validate_resource_limits values) (\<lambda>u.
          bnd (validate_storage_config values) (\<lambda>u.
          no_errors)))))))"

text \<open>\<^verbatim>\<open>validate_chart_structure\<close>.\<close>

fun required_files :: "env \<Rightarrow> string list \<Rightarrow> unit run" where
  "required_files E [] = ret ()"
| "required_files E (file_name # rest) =
     bnd (if \<not> path_exists E (path_join (helm_chart_dir E) file_name) then
            append_error
              (''Missing required file: '' @ path_join (helm_chart_dir E) file_name)
          else ret ()) (\<lambda>u.
     required_files E rest)"

fun template_files :: "env \<Rightarrow> string \<Rightarrow> string list \<Rightarrow> unit run" where
  "template_files E templates_dir [] = ret ()"
| "template_files E templates_dir (template # rest) =
     bnd (if \<not> path_exists E (path_join templates_dir template) then
            append_warning (''Missing template file: '' @ template)
          else ret ()) (\<lambda>u.
     template_files E templates_dir rest)"

definition validate_chart_structure :: "env \<Rightarrow> bool run" where
  "validate_chart_structure E =
     bnd (required_files E
            [''Chart.yaml'', ''values.yaml'', ''values-development.yaml'',
             ''values-production.yaml'']) (\<lambda>u.
     bnd (if \<not> path_exists E (path_join (helm_chart_dir E) ''templates'') then
            append_error ''Missing templates directory''
          else
            template_files E (path_join (helm_chart_dir E) ''templates'')
              [''deployment.yaml'', ''service.yaml'', ''configmap.yaml'']) (\<lambda>u.
     no_errors))"

text \<open>
  \<^verbatim>\<open>validate_kind_config\<close>. The list comprehension calls \<^verbatim>\<open>n.get('role')\<close> on
  every node before the loop over the port mappings starts.
\<close>

definition is_control_plane :: "yaml \<Rightarrow> exc + bool" where
  "is_control_plane n = ebind (py_get n ''role'' YNull) (\<lambda>r. Inr (r = YStr ''control-plane''))"

fun control_plane_nodes :: "yaml list \<Rightarrow> exc + yaml list" where
  "control_plane_nodes [] = Inr []"
| "control_plane_nodes (n # ns) =
     ebind (is_control_plane n) (\<lambda>b.
     ebind (control_plane_nodes ns) (\<lambda>rest. Inr (if b then n # rest else rest)))"

fun port_mappings :: "yaml list \<Rightarrow> unit run" where
  "port_mappings [] = ret ()"
| "port_mappings (node # rest) =
     bnd (lift (is_control_plane node)) (\<lambda>b.
     bnd (if b then
            bnd (lift (py_get node ''extraPortMappings'' (YList []))) (\<lambda>pm.
              if \<not> truthy pm then
                append_warning
                  ''No port mappings defined for control plane - services won't be accessible''
              else ret ())
          else ret ()) (\<lambda>u.
     port_mappings rest))"

definition kind_config_path :: "env \<Rightarrow> string" where
  "kind_config_path E =
     path_join (path_join (project_root E) ''infrastructure'') ''kind-cluster-config.yaml''"

definition validate_kind_config :: "env \<Rightarrow> bool run" where
  "validate_kind_config E =
     (if \<not> path_exists E (kind_config_path E) then
        bnd (append_error ''Missing Kind cluster configuration file'') (\<lambda>u. ret False)
      else
        (case load_yaml E (kind_config_path E) of
           Inl e \<Rightarrow> bnd (append_error (''Failed to parse Kind config: '' @ e)) (\<lambda>u. ret False)
         | Inr config \<Rightarrow>
             bnd (lift (py_get config ''kind'' YNull)) (\<lambda>kind.
             bnd (if kind \<noteq> YStr ''Cluster'' then
                    append_error (''Kind config must be of type 'Cluster'' @ [CHR 0x27])
                  else ret ()) (\<lambda>u.
             bnd (lift (py_get config ''nodes'' (YList []))) (\<lambda>nodes.
             bnd (if \<not> truthy nodes then append_error ''At least one node must be defined''
                  else ret ()) (\<lambda>u.
             bnd (lift (ebind (py_iter nodes) control_plane_nodes)) (\<lambda>cp.
             bnd (if cp = [] then
                    append_error ''At least one control-plane node must be defined''
                  else ret ()) (\<lambda>u.
             bnd (lift (py_iter nodes)) (\<lambda>ns.
             bnd (port_mappings ns) (\<lambda>u.
             no_errors))))))))))"

subsection \<open>The report and the driver\<close>

text \<open>
  \<^verbatim>\<open>generate_report\<close>. The marks in front of the headings and of the items are not
  ASCII; they are written as the bytes of their UTF-8 encoding.
\<close>

definition bullet :: string where
  "bullet = [CHR 0xE2, CHR 0x80, CHR 0xA2]"

definition cross_mark :: string where
  "cross_mark = [CHR 0xE2, CHR 0x9D, CHR 0x8C]"

definition warning_sign :: string where
  "warning_sign = [CHR 0xE2, CHR 0x9A, CHR 0xA0, CHR 0xEF, CHR 0xB8, CHR 0x8F]"

definition check_mark :: string where
  "check_mark = [CHR 0xE2, CHR 0x9C, CHR 0x85]"

definition generate_report :: "vstate \<Rightarrow> string" where
  "generate_report s =
     join [CHR 0x0A]
       ([replicate 60 CHR ''='',
         ''GameMaster's Companion Configuration Validation Report'',
         replicate 60 CHR ''='']
        @ (if errors s \<noteq> [] then
             ([CHR 0x0A] @ cross_mark @ '' ERRORS ('' @ show_int (int (length (errors s)))
                @ ''):'')
             # map (\<lambda>error. ''  '' @ bullet @ '' '' @ error) (errors s)
           else [])
        @ (if warnings s \<noteq> [] then
             ([CHR 0x0A] @ warning_sign @ ''  WARNINGS (''
                @ show_int (int (length (warnings s))) @ ''):'')
             # map (\<lambda>warning. ''  '' @ bullet @ '' '' @ warning) (warnings s)
           else [])
        @ (if errors s = [] \<and> warnings s = [] then
             [[CHR 0x0A] @ check_mark @ '' All validations passed!'']
           else [])
        @ [[CHR 0x0A] @ replicate 60 CHR ''=''])"

text \<open>
  The command line after \<^verbatim>\<open>argparse\<close>: \<^verbatim>\<open>--values-file\<close>, \<^verbatim>\<open>--environment\<close>
  and \<^verbatim>\<open>--strict\<close>.
\<close>

record args =
  values_file :: "string option"
  environment :: "string option"
  strict :: bool

fun validate_all :: "env \<Rightarrow> string list \<Rightarrow> unit run" where
  "validate_all E [] = ret ()"
| "validate_all E (file # rest) =
     bnd (validate_helm_values E file) (\<lambda>ok. validate_all E rest)"

text \<open>The files \<^verbatim>\<open>main\<close> validates, in its three modes.\<close>

definition selected_files :: "env \<Rightarrow> args \<Rightarrow> string list" where
  "selected_files E a =
     (case values_file a of
        Some f \<Rightarrow> [f]
      | None \<Rightarrow>
          (if environment a \<noteq> None \<and> environment a \<noteq> Some [] then
             [path_join (helm_chart_dir E) (''values-'' @ the (environment a) @ ''.yaml''),
              path_join (helm_chart_dir E) ''values.yaml'']
           else glob_values E))"

text \<open>\<^verbatim>\<open>sys.exit(1)\<close> or \<^verbatim>\<open>sys.exit(0)\<close>, from the two lists and the flag.\<close>

definition exit_code :: "args \<Rightarrow> vstate \<Rightarrow> int" where
  "exit_code a s =
     (let has_errors = 0 < length (errors s);
          has_warnings = 0 < length (warnings s)
      in if has_errors \<or> (strict a \<and> has_warnings) then 1 else 0)"

text \<open>
  \<^verbatim>\<open>main\<close>, from a fresh validator: the report it prints and the status it exits with.
\<close>

definition main_run :: "env \<Rightarrow> args \<Rightarrow> (string \<times> int) run" where
  "main_run E a =
     bnd (validate_chart_structure E) (\<lambda>ok.
     bnd (validate_kind_config E) (\<lambda>ok.
     bnd (validate_all E (selected_files E a)) (\<lambda>u.
     (\<lambda>s. (Inr (generate_report s, exit_code a s), s)))))"

definition main :: "env \<Rightarrow> args \<Rightarrow> (exc + string \<times> int) \<times> vstate" where
  "main E a = main_run E a \<lparr>errors = [], warnings = []\<rparr>"

text \<open>
  The status the process ends with. \<^verbatim>\<open>main\<close> catches nothing: when it reaches its
  last lines the status is the argument of \<^verbatim>\<open>sys.exit\<close>, and when an exception leaves
  it the interpreter prints the traceback and ends the process with status 1.
\<close>

definition process_status :: "env \<Rightarrow> args \<Rightarrow> int" where
  "process_status E a = (case fst (main E a) of Inr (report, code) \<Rightarrow> code | Inl e \<Rightarrow> 1)"

subsection \<open>Notions used by the properties\<close>

text \<open>
  A state extends another when both of its lists begin with the lists of the other: nothing
  was removed, reordered or rewritten, and no message moved from one list to the other. A
  method only appends when, from every state, the state it leaves extends the one it found,
  whether it returns or raises.
\<close>

definition extends :: "vstate \<Rightarrow> vstate \<Rightarrow> bool" where
  "extends s s' = (prefix (errors s) (errors s') \<and> prefix (warnings s) (warnings s'))"

definition appending :: "'a run \<Rightarrow> bool" where
  "appending m = (\<forall>s. extends s (snd (m s)))"

text \<open>A method reports the state when the flag it returns says whether no error is recorded.\<close>

definition reports_errors :: "bool run \<Rightarrow> bool" where
  "reports_errors m = (\<forall>s. case m s of (Inr b, s') \<Rightarrow> b = (errors s' = []) | (Inl e, s') \<Rightarrow> True)"

text \<open>
  The typed view of a document that the claims speak of: the entry of a mapping under a key,
  absent when the key is missing or the value is no mapping.
\<close>

definition is_dict :: "yaml \<Rightarrow> bool" where
  "is_dict v = (case v of YMap kvs \<Rightarrow> True | _ \<Rightarrow> False)"

definition entry :: "yaml \<Rightarrow> string \<Rightarrow> yaml option" where
  "entry c k = (case c of YMap kvs \<Rightarrow> map_of kvs (YStr k) | _ \<Rightarrow> None)"

text \<open>
  The cluster document: a node carries the control-plane role; a node has no port mapping
  (the entry is missing, or it is empty); and the findings the claim lists for a document
  \<open>config\<close> that declares the nodes \<open>ns\<close>, errors first.
\<close>

definition has_role :: "yaml \<Rightarrow> bool" where
  "has_role n = (entry n ''role'' = Some (YStr ''control-plane''))"

definition lacks_ports :: "yaml \<Rightarrow> bool" where
  "lacks_ports n = (case entry n ''extraPortMappings'' of None \<Rightarrow> True | Some v \<Rightarrow> \<not> truthy v)"

definition kind_findings :: "yaml \<Rightarrow> yaml list \<Rightarrow> string list \<times> string list" where
  "kind_findings config ns =
     ((if entry config ''kind'' = Some (YStr ''Cluster'') then []
       else [''Kind config must be of type 'Cluster'' @ [CHR 0x27]])
      @ (if ns = [] then [''At least one node must be defined''] else [])
      @ (if filter has_role ns = [] then [''At least one control-plane node must be defined'']
         else []),
      map (\<lambda>n. ''No port mappings defined for control plane - services won't be accessible'')
        (filter (\<lambda>n. has_role n \<and> lacks_ports n) ns))"

text \<open>The state after some errors and some warnings were appended.\<close>

definition with_findings :: "vstate \<Rightarrow> string list \<times> string list \<Rightarrow> vstate" where
  "with_findings s f = s\<lparr>errors := errors s @ fst f, warnings := warnings s @ snd f\<rparr>"

text \<open>
  The resource ratio: the findings for one resource from the two normalized numbers (an
  error when the limit is below the request; failing that, a warning when the limit is above
  four times the request), and the findings for a key of the two mappings, none unless both
  mappings have the key.
\<close>

definition ratio_findings ::
  "string \<Rightarrow> string \<Rightarrow> yaml \<Rightarrow> yaml \<Rightarrow> int \<Rightarrow> int \<Rightarrow> string list \<times> string list" where
  "ratio_findings service what lm rq lim req =
     (if lim < req then
        ([service @ '': '' @ what @ '' limit ('' @ py_str lm @ '') is less than request (''
            @ py_str rq @ '')''], [])
      else if req * 4 < lim then
        ([], [service @ '': '' @ what
            @ '' limit is much higher than request - consider adjusting''])
      else ([], []))"

definition resource_findings ::
  "string \<Rightarrow> string \<Rightarrow> (yaml \<Rightarrow> exc + int) \<Rightarrow> yaml \<Rightarrow> yaml \<Rightarrow> string
     \<Rightarrow> string list \<times> string list" where
  "resource_findings service what parse requests limits key =
     (case (entry requests key, entry limits key) of
        (Some rq, Some lm) \<Rightarrow>
          (case (parse rq, parse lm) of
             (Inr req, Inr lim) \<Rightarrow> ratio_findings service what lm rq lim req
           | _ \<Rightarrow> ([], []))
      | _ \<Rightarrow> ([], []))"

definition both_findings ::
  "string list \<times> string list \<Rightarrow> string list \<times> string list \<Rightarrow> string list \<times> string list" where
  "both_findings f g = (fst f @ fst g, snd f @ snd g)"

text \<open>
  The aggregate capacity. The entry at the end of a path of keys; a quantity of a requests
  block, where a missing key counts as the text \<^verbatim>\<open>0\<close>; what a service requests, in
  millicores and MB, nothing when its \<^verbatim>\<open>resources.requests\<close> is absent; and the
  warnings for the two totals.
\<close>

fun path_entry :: "yaml \<Rightarrow> string list \<Rightarrow> yaml option" where
  "path_entry c [] = Some c"
| "path_entry c (k # ks) = (case entry c k of None \<Rightarrow> None | Some v \<Rightarrow> path_entry v ks)"

definition quantity :: "(yaml \<Rightarrow> exc + int) \<Rightarrow> yaml \<Rightarrow> string \<Rightarrow> int" where
  "quantity parse requests key =
     (case parse (case entry requests key of Some v \<Rightarrow> v | None \<Rightarrow> YStr ''0'') of
        Inr n \<Rightarrow> n | Inl e \<Rightarrow> 0)"

definition block_requests :: "yaml option \<Rightarrow> int \<times> int" where
  "block_requests r =
     (case r of
        None \<Rightarrow> (0, 0)
      | Some rq \<Rightarrow> (quantity parse_cpu_value rq ''cpu'', quantity parse_memory_size rq ''memory''))"

definition requested :: "yaml \<Rightarrow> string list \<Rightarrow> int \<times> int" where
  "requested values path = block_requests (path_entry values (path @ [''resources'', ''requests'']))"

definition capacity_warnings :: "int \<times> int \<Rightarrow> string list" where
  "capacity_warnings tot =
     (if 4000 < fst tot then
        [''Total CPU requests ('' @ show_int (fst tot)
           @ ''m) may exceed development machine capacity'']
      else [])
     @ (if 8192 < snd tot then
          [''Total memory requests ('' @ show_int (snd tot)
             @ ''Mi) may exceed development machine capacity'']
        else [])"

text \<open>
  The storage. The size of the volume a persistence block asks for, in MB, nothing unless
  it is enabled and its size parses; the total over the database, the cache and, when the
  values have a section \<^verbatim>\<open>ai.vllm\<close>, the model server; the quotient of two positive
  integers in decimal, rounded to one place, ties to even; the text the code prints for a
  total; and the warnings.
\<close>

definition volume_size :: "yaml option \<Rightarrow> int" where
  "volume_size p =
     (case p of
        None \<Rightarrow> 0
      | Some persistence \<Rightarrow>
          if truthy (case entry persistence ''enabled'' of Some v \<Rightarrow> v | None \<Rightarrow> YNull) then
            (case parse_storage_size
                    (case entry persistence ''size'' of Some v \<Rightarrow> v | None \<Rightarrow> YStr []) of
               Inr (Some n) \<Rightarrow> n
             | _ \<Rightarrow> 0)
          else 0)"

definition stored_total :: "yaml \<Rightarrow> int" where
  "stored_total values =
     volume_size (path_entry values [''postgresql'', ''primary'', ''persistence''])
     + volume_size (path_entry values [''redis'', ''master'', ''persistence''])
     + (if path_entry values [''ai'', ''vllm''] = None then 0
        else volume_size (path_entry values [''ai'', ''vllm'', ''persistence'']))"

definition one_decimal :: "int \<Rightarrow> int \<Rightarrow> string" where
  "one_decimal a b =
     (let q = rne_div (10 * a) b in show_digits (q div 10) @ ''.'' @ [digit_char (q mod 10)])"

definition gb_text :: "int \<Rightarrow> string" where
  "gb_text t = (case py_true_div t 1024 of Inr x \<Rightarrow> format_1f x | Inl e \<Rightarrow> [])"

definition storage_warnings :: "yaml \<Rightarrow> string list" where
  "storage_warnings values =
     (if (case path_entry values [''global'', ''storageClass''] of
            Some v \<Rightarrow> truthy v | None \<Rightarrow> False)
      then [] else [''Global storage class not specified''])
     @ (if 100 * 1024 < stored_total values then
          [''Total storage requests ('' @ gb_text (stored_total values)
             @ ''GB) are quite large for development'']
        else [])"

subsection \<open>Example inputs\<close>

text \<open>A values file with the three required sections and nothing in them.\<close>

definition clean_values :: yaml where
  "clean_values =
     YMap [(YStr ''api'', YMap []), (YStr ''postgresql'', YMap []), (YStr ''redis'', YMap [])]"

text \<open>A cluster document with one control-plane node, with and without port mappings.\<close>

definition kind_without_ports :: yaml where
  "kind_without_ports =
     YMap [(YStr ''kind'', YStr ''Cluster''),
           (YStr ''nodes'', YList [YMap [(YStr ''role'', YStr ''control-plane'')]])]"

definition kind_with_ports :: yaml where
  "kind_with_ports =
     YMap [(YStr ''kind'', YStr ''Cluster''),
           (YStr ''nodes'',
            YList [YMap [(YStr ''role'', YStr ''control-plane''),
                         (YStr ''extraPortMappings'',
                          YList [YMap [(YStr ''containerPort'', YInt 80),
                                       (YStr ''hostPort'', YInt 8080)]])]])]"

text \<open>
  File systems: every path exists and every file loads as the given document; no path
  exists. Neither has a file that matches \<^verbatim>\<open>values*.yaml\<close>.
\<close>

definition all_files :: "yaml \<Rightarrow> env" where
  "all_files doc =
     \<lparr>project_root = ''/repo'', path_exists = (\<lambda>p. True),
      load_yaml = (\<lambda>p. Inr doc), glob_values = []\<rparr>"

definition no_files :: env where
  "no_files =
     \<lparr>project_root = ''/repo'', path_exists = (\<lambda>p. False),
      load_yaml = (\<lambda>p. Inl ''No such file or directory''), glob_values = []\<rparr>"

definition unreadable_files :: env where
  "unreadable_files =
     \<lparr>project_root = ''/repo'', path_exists = (\<lambda>p. True),
      load_yaml = (\<lambda>p. Inl ''mapping values are not allowed here''), glob_values = []\<rparr>"

definition fresh :: vstate where
  "fresh = \<lparr>errors = [], warnings = []\<rparr>"

definition after_error :: vstate where
  "after_error = \<lparr>errors = [''Missing templates directory''], warnings = []\<rparr>"

definition no_flags :: "bool \<Rightarrow> args" where
  "no_flags st = \<lparr>values_file = None, environment = None, strict = st\<rparr>"

text \<open>Resources of a service: requests and limits, as quantities in text.\<close>

definition resources_of :: "string \<Rightarrow> string \<Rightarrow> string \<Rightarrow> string \<Rightarrow> yaml" where
  "resources_of req_cpu req_mem lim_cpu lim_mem =
     YMap [(YStr ''requests'', YMap [(YStr ''cpu'', YStr req_cpu), (YStr ''memory'', YStr req_mem)]),
           (YStr ''limits'', YMap [(YStr ''cpu'', YStr lim_cpu), (YStr ''memory'', YStr lim_mem)])]"

text \<open>A database section with persistence enabled and the given size.\<close>

definition database_of :: "yaml \<Rightarrow> yaml" where
  "database_of sz =
     YMap [(YStr ''primary'',
            YMap [(YStr ''persistence'',
                   YMap [(YStr ''enabled'', YBool True), (YStr ''size'', sz)])])]"

text \<open>
  A values file whose four services request the given CPU; the front end has no memory
  request and the cache has an empty requests block.
\<close>

definition requesting :: "string \<Rightarrow> string \<Rightarrow> string \<Rightarrow> yaml" where
  "requesting api_cpu frontend_cpu db_cpu =
     YMap [(YStr ''api'',
            YMap [(YStr ''resources'',
                   YMap [(YStr ''requests'',
                          YMap [(YStr ''cpu'', YStr api_cpu), (YStr ''memory'', YStr ''512Mi'')])])]),
           (YStr ''frontend'',
            YMap [(YStr ''resources'',
                   YMap [(YStr ''requests'', YMap [(YStr ''cpu'', YStr frontend_cpu)])])]),
           (YStr ''postgresql'',
            YMap [(YStr ''primary'',
                   YMap [(YStr ''resources'',
                          YMap [(YStr ''requests'',
                                 YMap [(YStr ''cpu'', YStr db_cpu),
                                       (YStr ''memory'', YStr ''1Gi'')])])])]),
           (YStr ''redis'',
            YMap [(YStr ''master'', YMap [(YStr ''resources'', YMap [(YStr ''requests'', YMap [])])])]),
           (YStr ''worker'',
            YMap [(YStr ''resources'',
                   YMap [(YStr ''requests'', YMap [(YStr ''cpu'', YStr ''64'')])])])]"

text \<open>
  Values with a storage class, a database volume of the given size and a section
  \<^verbatim>\<open>ai.vllm\<close> with the given flag and an enabled volume of the given size.
\<close>

definition storing :: "string \<Rightarrow> bool \<Rightarrow> string \<Rightarrow> yaml" where
  "storing db_size vllm_enabled vllm_size =
     YMap [(YStr ''global'', YMap [(YStr ''storageClass'', YStr ''standard'')]),
           (YStr ''postgresql'',
            YMap [(YStr ''primary'',
                   YMap [(YStr ''persistence'',
                          YMap [(YStr ''enabled'', YBool True), (YStr ''size'', YStr db_size)])])]),
           (YStr ''ai'',
            YMap [(YStr ''vllm'',
                   YMap [(YStr ''enabled'', YBool vllm_enabled),
                         (YStr ''persistence'',
                          YMap [(YStr ''enabled'', YBool True),
                                (YStr ''size'', YStr vllm_size)])])])]"

text \<open>
  A cluster document whose \<^verbatim>\<open>nodes\<close> key has no value, as the YAML text
  \<^verbatim>\<open>kind: Cluster\<close>, \<^verbatim>\<open>nodes:\<close> loads.
\<close>

definition kind_null_nodes :: yaml where
  "kind_null_nodes = YMap [(YStr ''kind'', YStr ''Cluster''), (YStr ''nodes'', YNull)]"

text \<open>
  A values file with the three required sections and a database name, whose API requests
  1.5Gi of memory.
\<close>

definition fractional_memory :: yaml where
  "fractional_memory =
     YMap [(YStr ''global'', YMap [(YStr ''storageClass'', YStr ''standard'')]),
           (YStr ''api'',
            YMap [(YStr ''resources'',
                   YMap [(YStr ''requests'',
                          YMap [(YStr ''cpu'', YStr ''500m''),
                                (YStr ''memory'', YStr ''1.5Gi'')])])]),
           (YStr ''postgresql'', YMap [(YStr ''auth'', YMap [(YStr ''database'', YStr ''gmc'')])]),
           (YStr ''redis'', YMap [])]"

text \<open>
  A file system in which every path exists, the cluster document has a control-plane node
  with port mappings, and the chart directory has one values file, with the given content.
\<close>

definition one_values_file :: "yaml \<Rightarrow> env" where
  "one_values_file doc =
     \<lparr>project_root = ''/repo'', path_exists = (\<lambda>p. True),
      load_yaml = (\<lambda>p. if p = ''/repo/infrastructure/kind-cluster-config.yaml''
                        then Inr kind_with_ports else Inr doc),
      glob_values = [''/repo/infrastructure/helm/gmc-dev/values.yaml'']\<rparr>"

section \<open>Properties\<close>

subsection \<open>Strings and the unit parsers\<close>

lemma upper_append: "upper (p @ s) = upper p @ upper s"
  by (simp add: upper_def)

lemma upper_length: "length (upper s) = length s"
  by (simp add: upper_def)

lemma endswith_append: "endswith (p @ t) t"
  by (simp add: endswith_def)

lemma drop_last_append: "drop_last (length t) (p @ t) = p"
  by (simp add: drop_last_def)

lemma endswith_last: "endswith s t \<Longrightarrow> t \<noteq> [] \<Longrightarrow> last s = last t"
proof -
  assume e: "endswith s t" and n: "t \<noteq> []"
  from e have "s = take (length s - length t) s @ t"
    by (metis append_take_drop_id endswith_def)
  then have "last s = last (take (length s - length t) s @ t)" by simp
  with n show ?thesis by simp
qed

lemma not_endswith_snoc: "c \<noteq> last t \<Longrightarrow> t \<noteq> [] \<Longrightarrow> \<not> endswith (p @ [c]) t"
  using endswith_last [of "p @ [c]" t] by auto


lemma truthy_str: "truthy (YStr s) = (s \<noteq> [])"
  by (simp add: truthy_def)

lemma py_str_str: "py_str (YStr s) = s"
  by (simp add: py_str_def)

text \<open>
  Claim C4, for ASCII text. \<^verbatim>\<open>_parse_memory_size\<close> upper-cases its text before it
  looks at the suffix, so a suffix matches in any mix of cases; the two-letter suffixes are
  tried before the one-letter ones; \<^verbatim>\<open>Mi\<close> and \<^verbatim>\<open>M\<close> give the number in front
  as it is, \<^verbatim>\<open>Gi\<close> and \<^verbatim>\<open>G\<close> give it times 1024; a text without any of the
  four suffixes is converted as a whole; the empty text gives 0.
\<close>

theorem parse_memory_size_suffixes:
  "parse_memory_size (YStr []) = Inr 0
   \<and> (ascii (p @ suf) \<and> upper suf = ''MI'' \<longrightarrow>
        parse_memory_size (YStr (p @ suf)) = py_int (upper p))
   \<and> (ascii (p @ suf) \<and> upper suf = ''GI'' \<longrightarrow>
        parse_memory_size (YStr (p @ suf)) = ebind (py_int (upper p)) (\<lambda>n. Inr (n * 1024)))
   \<and> (ascii (p @ suf) \<and> upper suf = ''M'' \<longrightarrow>
        parse_memory_size (YStr (p @ suf)) = py_int (upper p))
   \<and> (ascii (p @ suf) \<and> upper suf = ''G'' \<longrightarrow>
        parse_memory_size (YStr (p @ suf)) = ebind (py_int (upper p)) (\<lambda>n. Inr (n * 1024)))
   \<and> (ascii s \<and> s \<noteq> [] \<and> \<not> endswith (upper s) ''MI'' \<and> \<not> endswith (upper s) ''GI''
        \<and> \<not> endswith (upper s) ''M'' \<and> \<not> endswith (upper s) ''G'' \<longrightarrow>
        parse_memory_size (YStr s) = py_int (upper s))"
proof (intro conjI impI)
  show "parse_memory_size (YStr []) = Inr 0"
    by (simp add: parse_memory_size_def truthy_str)
next
  assume "ascii (p @ suf) \<and> upper suf = ''MI''"
  then have u: "upper suf = ''MI''" by simp
  then have l: "length suf = 2" using upper_length [of suf] by simp
  then have ne: "p @ suf \<noteq> []" by auto
  have e: "endswith (upper p @ ''MI'') ''MI''" by (rule endswith_append)
  have d: "drop_last 2 (upper p @ ''MI'') = upper p"
    by (simp add: drop_last_def)
  show "parse_memory_size (YStr (p @ suf)) = py_int (upper p)"
    using ne e d by (simp add: parse_memory_size_def truthy_str py_str_str upper_append u Let_def)
next
  assume "ascii (p @ suf) \<and> upper suf = ''GI''"
  then have u: "upper suf = ''GI''" by simp
  then have l: "length suf = 2" using upper_length [of suf] by simp
  then have ne: "p @ suf \<noteq> []" by auto
  have e: "endswith (upper p @ ''GI'') ''GI''" by (rule endswith_append)
  have n: "\<not> endswith (upper p @ ''GI'') ''MI''"
    using endswith_last [of "upper p @ ''GI''" "''MI''"]
    by (auto simp: endswith_def)
  have d: "drop_last 2 (upper p @ ''GI'') = upper p"
    by (simp add: drop_last_def)
  show "parse_memory_size (YStr (p @ suf)) = ebind (py_int (upper p)) (\<lambda>n. Inr (n * 1024))"
    using ne e d n by (simp add: parse_memory_size_def truthy_str py_str_str upper_append u Let_def)
next
  assume "ascii (p @ suf) \<and> upper suf = ''M''"
  then have u: "upper suf = ''M''" by simp
  then have l: "length suf = 1" using upper_length [of suf] by simp
  then have ne: "p @ suf \<noteq> []" by auto
  have e: "endswith (upper p @ ''M'') ''M''" by (rule endswith_append)
  have n1: "\<not> endswith (upper p @ ''M'') ''MI''"
    using not_endswith_snoc [of "CHR ''M''" "''MI''" "upper p"] by simp
  have n2: "\<not> endswith (upper p @ ''M'') ''GI''"
    using not_endswith_snoc [of "CHR ''M''" "''GI''" "upper p"] by simp
  have d: "drop_last 1 (upper p @ ''M'') = upper p"
    by (simp add: drop_last_def)
  show "parse_memory_size (YStr (p @ suf)) = py_int (upper p)"
    using ne e d n1 n2
    by (simp add: parse_memory_size_def truthy_str py_str_str upper_append u Let_def)
next
  assume "ascii (p @ suf) \<and> upper suf = ''G''"
  then have u: "upper suf = ''G''" by simp
  then have l: "length suf = 1" using upper_length [of suf] by simp
  then have ne: "p @ suf \<noteq> []" by auto
  have e: "endswith (upper p @ ''G'') ''G''" by (rule endswith_append)
  have n1: "\<not> endswith (upper p @ ''G'') ''MI''"
    using not_endswith_snoc [of "CHR ''G''" "''MI''" "upper p"] by simp
  have n2: "\<not> endswith (upper p @ ''G'') ''GI''"
    using not_endswith_snoc [of "CHR ''G''" "''GI''" "upper p"] by simp
  have n3: "\<not> endswith (upper p @ ''G'') ''M''"
    using not_endswith_snoc [of "CHR ''G''" "''M''" "upper p"] by simp
  have d: "drop_last 1 (upper p @ ''G'') = upper p"
    by (simp add: drop_last_def)
  show "parse_memory_size (YStr (p @ suf)) = ebind (py_int (upper p)) (\<lambda>n. Inr (n * 1024))"
    using ne e d n1 n2 n3
    by (simp add: parse_memory_size_def truthy_str py_str_str upper_append u Let_def)
next
  assume "ascii s \<and> s \<noteq> [] \<and> \<not> endswith (upper s) ''MI'' \<and> \<not> endswith (upper s) ''GI''
        \<and> \<not> endswith (upper s) ''M'' \<and> \<not> endswith (upper s) ''G''"
  then show "parse_memory_size (YStr s) = py_int (upper s)"
    by (simp add: parse_memory_size_def truthy_str py_str_str Let_def)
qed


text \<open>The canonical forms: 512Mi, 2Gi, 1G, 100M and the empty text.\<close>

theorem parse_memory_size_suffixes_witness:
  "parse_memory_size (YStr '''') = Inr 0
   \<and> parse_memory_size (YStr ''512Mi'') = Inr 512
   \<and> parse_memory_size (YStr ''2Gi'') = Inr 2048
   \<and> parse_memory_size (YStr ''1G'') = Inr 1024
   \<and> parse_memory_size (YStr ''100M'') = Inr 100
   \<and> parse_memory_size (YStr ''2gI'') = Inr 2048
   \<and> parse_memory_size (YStr ''300'') = Inr 300"
proof -
  have u: "upper ''Mi'' = ''MI''" "upper ''Gi'' = ''GI''" "upper ''G'' = ''G''"
    "upper ''M'' = ''M''" "upper ''gI'' = ''GI''"
    by (simp_all add: upper_def ascii_upper_def)
  have i: "py_int (upper ''512'') = Inr 512" "py_int (upper ''2'') = Inr 2"
    "py_int (upper ''1'') = Inr 1" "py_int (upper ''100'') = Inr 100"
    "py_int (upper ''300'') = Inr 300"
    by code_simp+
  have n: "''300'' \<noteq> [] \<and> \<not> endswith (upper ''300'') ''MI'' \<and> \<not> endswith (upper ''300'') ''GI''
        \<and> \<not> endswith (upper ''300'') ''M'' \<and> \<not> endswith (upper ''300'') ''G''"
    by (simp add: upper_def ascii_upper_def endswith_def)
  have a: "ascii (''512'' @ ''Mi'')" "ascii (''2'' @ ''Gi'')" "ascii (''1'' @ ''G'')"
    "ascii (''100'' @ ''M'')" "ascii (''2'' @ ''gI'')" "ascii ''300''"
    by (simp_all add: ascii_def)
  show ?thesis
    using parse_memory_size_suffixes [where suf = "''Mi''" and p = "''512''" and s = "''300''"]
      parse_memory_size_suffixes [where suf = "''Gi''" and p = "''2''" and s = "''300''"]
      parse_memory_size_suffixes [where suf = "''G''" and p = "''1''" and s = "''300''"]
      parse_memory_size_suffixes [where suf = "''M''" and p = "''100''" and s = "''300''"]
      parse_memory_size_suffixes [where suf = "''gI''" and p = "''2''" and s = "''300''"]
      u i n a
    by (simp add: ebind_def)
qed



subsection \<open>The findings only grow\<close>

lemma extends_refl: "extends s s"
  by (simp add: extends_def)

lemma extends_trans: "extends s t \<Longrightarrow> extends t u \<Longrightarrow> extends s u"
  by (auto simp: extends_def intro: prefix_order.trans)

lemma appending_ret: "appending (ret x)"
  by (simp add: appending_def ret_def extends_refl)

lemma appending_lift: "appending (lift r)"
  by (simp add: appending_def lift_def extends_refl)

lemma appending_no_errors: "appending no_errors"
  by (simp add: appending_def no_errors_def extends_refl)

lemma appending_append_error: "appending (append_error msg)"
  by (simp add: appending_def append_error_def extends_def)

lemma appending_append_warning: "appending (append_warning msg)"
  by (simp add: appending_def append_warning_def extends_def)

lemma appending_bnd:
  assumes m: "appending m" and f: "\<And>x. appending (f x)"
  shows "appending (bnd m f)"
proof -
  have "extends s (snd (bnd m f s))" for s
  proof (cases "m s")
    case (Pair r s')
    from m have e1: "extends s s'" using Pair by (auto simp: appending_def dest: spec [of _ s])
    show ?thesis
    proof (cases r)
      case (Inl e)
      with Pair e1 show ?thesis by (simp add: bnd_def)
    next
      case (Inr x)
      from f [of x] have "extends s' (snd (f x s'))" by (simp add: appending_def)
      with e1 have "extends s (snd (f x s'))" by (rule extends_trans)
      with Pair Inr show ?thesis by (simp add: bnd_def)
    qed
  qed
  then show ?thesis by (simp add: appending_def)
qed

lemma appending_if: "appending a \<Longrightarrow> appending b \<Longrightarrow> appending (if c then a else b)"
  by simp

lemmas appendingI =
  appending_bnd appending_if appending_ret appending_lift appending_no_errors
  appending_append_error appending_append_warning

lemma appending_ratio_cpu: "appending (ratio_cpu requests limits service)"
  unfolding ratio_cpu_def by (intro appendingI)

lemma appending_ratio_memory: "appending (ratio_memory requests limits service)"
  unfolding ratio_memory_def by (intro appendingI)

lemma appending_validate_resource_ratio: "appending (validate_resource_ratio resources service)"
  unfolding validate_resource_ratio_def
  by (intro appendingI appending_ratio_cpu appending_ratio_memory)

lemma appending_validate_api_config: "appending (validate_api_config api_config)"
  unfolding validate_api_config_def
  by (intro appendingI appending_validate_resource_ratio)

lemma appending_check_persistence: "appending (check_persistence db_config)"
  unfolding check_persistence_def by (intro appendingI)

lemma appending_check_authentication: "appending (check_authentication db_config)"
  unfolding check_authentication_def by (intro appendingI)

lemma appending_validate_database_config: "appending (validate_database_config db_config)"
  unfolding validate_database_config_def
  by (intro appendingI appending_check_persistence appending_check_authentication)

lemma appending_validate_vllm: "appending (validate_vllm ai_config)"
  unfolding validate_vllm_def by (intro appendingI)

lemma appending_validate_audio: "appending (validate_audio ai_config)"
  unfolding validate_audio_def by (intro appendingI)

lemma appending_validate_ai_config: "appending (validate_ai_config ai_config)"
  unfolding validate_ai_config_def
  by (intro appendingI appending_validate_vllm appending_validate_audio)

lemma appending_validate_resource_limits: "appending (validate_resource_limits values)"
  unfolding validate_resource_limits_def by (intro appendingI)

lemma appending_validate_storage_config: "appending (validate_storage_config values)"
  unfolding validate_storage_config_def by (intro appendingI)

lemma appending_required_sections: "appending (required_sections values file sections)"
  by (induction sections) (auto intro!: appendingI)

lemma appending_validate_section:
  "(\<And>v. appending (validator v)) \<Longrightarrow> appending (validate_section name validator values)"
  unfolding validate_section_def by (intro appendingI)

lemma appending_validate_helm_values: "appending (validate_helm_values E file)"
  unfolding validate_helm_values_def
  by (cases "load_yaml E file")
     (auto intro!: appendingI appending_required_sections appending_validate_section
        appending_validate_api_config appending_validate_database_config
        appending_validate_ai_config appending_validate_resource_limits
        appending_validate_storage_config)

lemma appending_required_files: "appending (required_files E files)"
  by (induction files) (auto intro!: appendingI)

lemma appending_template_files: "appending (template_files E dir files)"
  by (induction files) (auto intro!: appendingI)

lemma appending_validate_chart_structure: "appending (validate_chart_structure E)"
  unfolding validate_chart_structure_def
  by (intro appendingI appending_required_files appending_template_files)

lemma appending_port_mappings: "appending (port_mappings ns)"
  by (induction ns) (auto intro!: appendingI)

lemma appending_validate_kind_config: "appending (validate_kind_config E)"
  unfolding validate_kind_config_def
  by (cases "load_yaml E (kind_config_path E)")
     (auto intro!: appendingI appending_port_mappings)

lemma appending_validate_all: "appending (validate_all E files)"
  by (induction files) (auto intro!: appendingI appending_validate_helm_values)

text \<open>
  Claim C9. Every validator only appends to the two lists: from any state, and whether it
  returns or raises, the errors it found are a prefix of the errors it leaves, and so for the
  warnings. The section validators are stated for any document value, the file validators
  for any file system.
\<close>

theorem validators_only_append:
  "appending (validate_api_config c)
   \<and> appending (validate_database_config c)
   \<and> appending (validate_ai_config c)
   \<and> appending (validate_resource_ratio c service)
   \<and> appending (validate_resource_limits c)
   \<and> appending (validate_storage_config c)
   \<and> appending (validate_helm_values E file)
   \<and> appending (validate_chart_structure E)
   \<and> appending (validate_kind_config E)"
  by (intro conjI appending_validate_api_config appending_validate_database_config
      appending_validate_ai_config appending_validate_resource_ratio
      appending_validate_resource_limits appending_validate_storage_config
      appending_validate_helm_values appending_validate_chart_structure
      appending_validate_kind_config)

subsection \<open>The flag a file validator returns\<close>

lemma reports_no_errors: "reports_errors no_errors"
  by (simp add: reports_errors_def no_errors_def)

lemma reports_bnd:
  assumes "\<And>x. reports_errors (f x)"
  shows "reports_errors (bnd m f)"
proof -
  have "case bnd m f s of (Inr b, s') \<Rightarrow> b = (errors s' = []) | (Inl e, s') \<Rightarrow> True" for s
  proof (cases "m s")
    case (Pair r s1)
    show ?thesis
    proof (cases r)
      case (Inl e)
      with Pair show ?thesis by (simp add: bnd_def)
    next
      case (Inr x)
      from assms [of x]
      have "case f x s1 of (Inr b, s') \<Rightarrow> b = (errors s' = []) | (Inl e, s') \<Rightarrow> True"
        by (simp add: reports_errors_def)
      with Pair Inr show ?thesis by (simp add: bnd_def)
    qed
  qed
  then show ?thesis by (simp add: reports_errors_def)
qed

lemma reports_failure: "reports_errors (bnd (append_error msg) (\<lambda>u. ret False))"
  by (simp add: reports_errors_def bnd_def append_error_def ret_def)

lemma reports_validate_helm_values: "reports_errors (validate_helm_values E file)"
  unfolding validate_helm_values_def
  by (cases "load_yaml E file") (auto intro!: reports_bnd reports_no_errors reports_failure)

lemma reports_validate_chart_structure: "reports_errors (validate_chart_structure E)"
  unfolding validate_chart_structure_def
  by (intro reports_bnd reports_no_errors)

lemma reports_validate_kind_config: "reports_errors (validate_kind_config E)"
  unfolding validate_kind_config_def
  by (cases "load_yaml E (kind_config_path E)")
     (auto intro!: reports_bnd reports_no_errors reports_failure)

lemma earlier_error_stays:
  assumes "appending m" and "errors s \<noteq> []"
  shows "errors (snd (m s)) \<noteq> []"
proof -
  from assms(1) have "prefix (errors s) (errors (snd (m s)))"
    by (simp add: appending_def extends_def)
  with assms(2) show ?thesis by auto
qed

text \<open>
  Claim C10. The flag that \<^verbatim>\<open>validate_helm_values\<close>, \<^verbatim>\<open>validate_chart_structure\<close>
  and \<^verbatim>\<open>validate_kind_config\<close> return says whether the list of errors is empty at
  the return, whatever recorded them: from a state that already holds an error,
  \<^verbatim>\<open>validate_helm_values\<close> never returns \<^verbatim>\<open>True\<close>.
\<close>

theorem flag_is_cumulative:
  "reports_errors (validate_helm_values E file)
   \<and> reports_errors (validate_chart_structure E)
   \<and> reports_errors (validate_kind_config E)
   \<and> (errors s \<noteq> [] \<longrightarrow> fst (validate_helm_values E file s) \<noteq> Inr True)"
proof (intro conjI impI)
  assume ne: "errors s \<noteq> []"
  have after: "errors (snd (validate_helm_values E file s)) \<noteq> []"
    using appending_validate_helm_values ne by (rule earlier_error_stays)
  have "reports_errors (validate_helm_values E file)"
    by (rule reports_validate_helm_values)
  then have "case validate_helm_values E file s of
      (Inr b, s') \<Rightarrow> b = (errors s' = []) | (Inl e, s') \<Rightarrow> True"
    by (simp add: reports_errors_def)
  with after show "fst (validate_helm_values E file s) \<noteq> Inr True"
    by (auto split: prod.splits sum.splits)
qed (rule reports_validate_helm_values reports_validate_chart_structure
      reports_validate_kind_config)+

text \<open>
  A values file without errors gives \<^verbatim>\<open>True\<close> to a fresh validator and
  \<^verbatim>\<open>False\<close> to one that recorded an error before.
\<close>

theorem flag_is_cumulative_witness:
  "fst (validate_helm_values (all_files clean_values) ''values.yaml'' fresh) = Inr True
   \<and> errors after_error \<noteq> []
   \<and> fst (validate_helm_values (all_files clean_values) ''values.yaml'' after_error) = Inr False"
proof -
  have a: "fst (validate_helm_values (all_files clean_values) ''values.yaml'' fresh) = Inr True"
    by code_simp
  have b: "errors after_error \<noteq> []"
    by (simp add: after_error_def)
  have c: "fst (validate_helm_values (all_files clean_values) ''values.yaml'' after_error)
      \<in> {Inr False, Inr True}"
    by code_simp
  from b flag_is_cumulative [of "all_files clean_values" "''values.yaml''" after_error]
  have "fst (validate_helm_values (all_files clean_values) ''values.yaml'' after_error)
      \<noteq> Inr True"
    by blast
  with a b c show ?thesis by blast
qed

subsection \<open>The exit status\<close>

lemma main_exit_code:
  assumes "main E a = (Inr (report, code), s)"
  shows "code = exit_code a s"
  using assms
  by (auto simp: main_def main_run_def bnd_def split: prod.splits sum.splits)

text \<open>
  Claim C6, as the code has it. When \<^verbatim>\<open>main\<close> reaches its last lines, the process
  exits with 1 if an error is recorded, or if \<^verbatim>\<open>--strict\<close> is set and a warning is
  recorded, and with 0 otherwise. When an exception leaves \<^verbatim>\<open>main\<close>, the process
  exits with 1 whatever is recorded.
\<close>

theorem exit_status:
  "(main E a = (Inr (report, code), s) \<longrightarrow>
      process_status E a = code
      \<and> (code = 1 \<longleftrightarrow> errors s \<noteq> [] \<or> (strict a \<and> warnings s \<noteq> []))
      \<and> (code = 0 \<longleftrightarrow> \<not> (errors s \<noteq> [] \<or> (strict a \<and> warnings s \<noteq> []))))
   \<and> (main E a = (Inl e, s) \<longrightarrow> process_status E a = 1)"
proof (intro conjI impI)
  assume m: "main E a = (Inr (report, code), s)"
  then show "process_status E a = code"
    by (simp add: process_status_def)
  from m have c: "code = exit_code a s" by (rule main_exit_code)
  then show "code = 1 \<longleftrightarrow> errors s \<noteq> [] \<or> (strict a \<and> warnings s \<noteq> [])"
    by (simp add: exit_code_def)
  from c show "code = 0 \<longleftrightarrow> \<not> (errors s \<noteq> [] \<or> (strict a \<and> warnings s \<noteq> []))"
    by (simp add: exit_code_def)
next
  assume "main E a = (Inl e, s)"
  then show "process_status E a = 1"
    by (simp add: process_status_def)
qed

text \<open>
  Errors without \<^verbatim>\<open>--strict\<close> give 1; warnings alone give 0 without the flag and 1
  with it; no finding gives 0 with the flag; a values file on which a parser raises gives 1.
\<close>

lemma main_returns:
  assumes "fst (main E a) \<in> {Inr (generate_report (snd (main E a)), 0),
                              Inr (generate_report (snd (main E a)), 1)}"
  shows "\<exists>code. main E a = (Inr (generate_report (snd (main E a)), code), snd (main E a))"
  using assms by (cases "main E a") auto

theorem exit_status_witness:
  "process_status no_files (no_flags False) = 1
   \<and> process_status (all_files kind_without_ports) (no_flags False) = 0
   \<and> process_status (all_files kind_without_ports) (no_flags True) = 1
   \<and> process_status (all_files kind_with_ports) (no_flags True) = 0
   \<and> process_status (one_values_file fractional_memory) (no_flags False) = 1"
proof (intro conjI)
  let ?E = no_files and ?a = "no_flags False"
  have r: "fst (main ?E ?a) \<in> {Inr (generate_report (snd (main ?E ?a)), 0),
                               Inr (generate_report (snd (main ?E ?a)), 1)}"
    by code_simp
  have f: "errors (snd (main ?E ?a)) \<noteq> []"
    by code_simp
  from main_returns [OF r] obtain code
    where m: "main ?E ?a = (Inr (generate_report (snd (main ?E ?a)), code), snd (main ?E ?a))"
    by blast
  from exit_status [of ?E ?a "generate_report (snd (main ?E ?a))" code "snd (main ?E ?a)"] m f
  show "process_status ?E ?a = 1" by blast
next
  let ?E = "all_files kind_without_ports" and ?a = "no_flags False"
  have r: "fst (main ?E ?a) \<in> {Inr (generate_report (snd (main ?E ?a)), 0),
                               Inr (generate_report (snd (main ?E ?a)), 1)}"
    by code_simp
  have f: "errors (snd (main ?E ?a)) = []" "warnings (snd (main ?E ?a)) \<noteq> []" "\<not> strict ?a"
    by code_simp+
  from main_returns [OF r] obtain code
    where m: "main ?E ?a = (Inr (generate_report (snd (main ?E ?a)), code), snd (main ?E ?a))"
    by blast
  from exit_status [of ?E ?a "generate_report (snd (main ?E ?a))" code "snd (main ?E ?a)"] m f
  show "process_status ?E ?a = 0" by blast
next
  let ?E = "all_files kind_without_ports" and ?a = "no_flags True"
  have r: "fst (main ?E ?a) \<in> {Inr (generate_report (snd (main ?E ?a)), 0),
                               Inr (generate_report (snd (main ?E ?a)), 1)}"
    by code_simp
  have f: "errors (snd (main ?E ?a)) = []" "warnings (snd (main ?E ?a)) \<noteq> []" "strict ?a"
    by code_simp+
  from main_returns [OF r] obtain code
    where m: "main ?E ?a = (Inr (generate_report (snd (main ?E ?a)), code), snd (main ?E ?a))"
    by blast
  from exit_status [of ?E ?a "generate_report (snd (main ?E ?a))" code "snd (main ?E ?a)"] m f
  show "process_status ?E ?a = 1" by blast
next
  let ?E = "all_files kind_with_ports" and ?a = "no_flags True"
  have r: "fst (main ?E ?a) \<in> {Inr (generate_report (snd (main ?E ?a)), 0),
                               Inr (generate_report (snd (main ?E ?a)), 1)}"
    by code_simp
  have f: "errors (snd (main ?E ?a)) = []" "warnings (snd (main ?E ?a)) = []"
    by code_simp+
  from main_returns [OF r] obtain code
    where m: "main ?E ?a = (Inr (generate_report (snd (main ?E ?a)), code), snd (main ?E ?a))"
    by blast
  from exit_status [of ?E ?a "generate_report (snd (main ?E ?a))" code "snd (main ?E ?a)"] m f
  show "process_status ?E ?a = 0" by blast
next
  let ?E = "one_values_file fractional_memory" and ?a = "no_flags False"
  have m: "main ?E ?a = (Inl ValueError, fresh)"
    by code_simp
  from exit_status [of ?E ?a "[]" 0 fresh ValueError] m
  show "process_status ?E ?a = 1" by blast
qed

text \<open>
  Claim C6 as it is written speaks of every run. A values file whose API requests 1.5Gi of
  memory passes the checks of its sections without a finding; then the sum of the requests
  calls \<^verbatim>\<open>int('1.5')\<close>, the \<^verbatim>\<open>ValueError\<close> leaves \<^verbatim>\<open>main\<close>, and the
  process exits with 1 although no error and no warning is recorded and
  \<^verbatim>\<open>--strict\<close> is not set.
\<close>

theorem exit_status_counterexample:
  "parse_memory_size (YStr ''1.5Gi'') = Inl ValueError
   \<and> main (one_values_file fractional_memory) (no_flags False)
       = (Inl ValueError, \<lparr>errors = [], warnings = []\<rparr>)
   \<and> \<not> strict (no_flags False)
   \<and> process_status (one_values_file fractional_memory) (no_flags False) = 1"
  by code_simp

subsection \<open>The cluster document\<close>

lemma is_dict_get: "is_dict n \<Longrightarrow> py_get n k d = Inr (case entry n k of Some v \<Rightarrow> v | None \<Rightarrow> d)"
  by (cases n) (simp_all add: is_dict_def py_get_def entry_def)

lemma is_control_plane_dict: "is_dict n \<Longrightarrow> is_control_plane n = Inr (has_role n)"
  by (auto simp: is_control_plane_def is_dict_get ebind_def has_role_def split: option.splits)

lemma control_plane_nodes_dicts:
  "list_all is_dict ns \<Longrightarrow> control_plane_nodes ns = Inr (filter has_role ns)"
  by (induction ns) (simp_all add: is_control_plane_dict ebind_def)

lemma with_findings_nothing: "with_findings s ([], []) = s"
  by (simp add: with_findings_def)

lemma with_findings_twice:
  "with_findings (with_findings s (e, w)) (e', w') = with_findings s (e @ e', w @ w')"
  by (simp add: with_findings_def)

lemma append_error_findings: "append_error msg s = (Inr (), with_findings s ([msg], []))"
  by (simp add: append_error_def with_findings_def)

lemma append_warning_findings: "append_warning msg s = (Inr (), with_findings s ([], [msg]))"
  by (simp add: append_warning_def with_findings_def)

lemma bnd_lift_Inr: "bnd (lift (Inr x)) f = f x"
  by (simp add: bnd_def lift_def)

lemma bnd_lift_Inl: "bnd (lift (Inl e)) f s = (Inl e, s)"
  by (simp add: bnd_def lift_def)

lemma bnd_ret: "bnd (ret x) f = f x"
  by (simp add: bnd_def ret_def)

lemma bnd_append_error: "bnd (append_error msg) f s = f () (with_findings s ([msg], []))"
  by (simp add: bnd_def append_error_findings)

lemma bnd_append_warning: "bnd (append_warning msg) f s = f () (with_findings s ([], [msg]))"
  by (simp add: bnd_def append_warning_findings)

lemma bnd_if: "bnd (if c then a else b) f = (if c then bnd a f else bnd b f)"
  by simp

lemmas run_simps =
  bnd_lift_Inr bnd_lift_Inl bnd_ret bnd_append_error bnd_append_warning bnd_if
  append_error_findings append_warning_findings with_findings_twice with_findings_nothing

lemma ret_apply: "ret x s = (Inr x, s)"
  by (simp add: ret_def)

lemma port_mappings_dicts:
  "list_all is_dict ns \<Longrightarrow>
   port_mappings ns s =
     (Inr (), with_findings s ([],
        map (\<lambda>n. ''No port mappings defined for control plane - services won't be accessible'')
          (filter (\<lambda>n. has_role n \<and> lacks_ports n) ns)))"
proof (induction ns arbitrary: s)
  case Nil
  then show ?case by (simp add: ret_def with_findings_nothing)
next
  case (Cons n ns)
  then have d: "is_dict n" and IH: "\<And>s. port_mappings ns s =
     (Inr (), with_findings s ([],
        map (\<lambda>n. ''No port mappings defined for control plane - services won't be accessible'')
          (filter (\<lambda>n. has_role n \<and> lacks_ports n) ns)))"
    by simp_all
  have lp: "truthy (case entry n ''extraPortMappings'' of Some v \<Rightarrow> v | None \<Rightarrow> YList [])
      = (\<not> lacks_ports n)"
    by (simp add: lacks_ports_def truthy_def split: option.splits)
  show ?case
    by (simp add: run_simps ret_apply is_control_plane_dict [OF d] is_dict_get [OF d] IH lp)
qed

text \<open>
  What \<^verbatim>\<open>validate_kind_config\<close> does on the documents it handles: a missing file
  gives one error and \<^verbatim>\<open>False\<close> at once, and so does a file that does not load. For
  a document that is a mapping whose nodes (none when the key is missing) are a list of
  mappings, the errors are those for a kind other than \<^verbatim>\<open>Cluster\<close>, for no node and
  for no control-plane node, in this order, and there is one warning for each control-plane
  node without port mappings.
\<close>

theorem validate_kind_config_checks:
  "(\<not> path_exists E (kind_config_path E) \<longrightarrow>
      validate_kind_config E s =
        (Inr False, with_findings s ([''Missing Kind cluster configuration file''], [])))
   \<and> (path_exists E (kind_config_path E) \<and> load_yaml E (kind_config_path E) = Inl e \<longrightarrow>
      validate_kind_config E s =
        (Inr False, with_findings s ([''Failed to parse Kind config: '' @ e], [])))
   \<and> (path_exists E (kind_config_path E) \<and> load_yaml E (kind_config_path E) = Inr config
       \<and> is_dict config \<and> entry config ''nodes'' \<in> {None, Some (YList ns)}
       \<and> (entry config ''nodes'' = None \<longrightarrow> ns = []) \<and> list_all is_dict ns \<longrightarrow>
      validate_kind_config E s =
        (Inr (errors (with_findings s (kind_findings config ns)) = []),
         with_findings s (kind_findings config ns)))"
proof (intro conjI impI)
  assume "\<not> path_exists E (kind_config_path E)"
  then show "validate_kind_config E s =
        (Inr False, with_findings s ([''Missing Kind cluster configuration file''], []))"
    by (simp add: validate_kind_config_def bnd_def append_error_findings ret_def)
next
  assume "path_exists E (kind_config_path E) \<and> load_yaml E (kind_config_path E) = Inl e"
  then show "validate_kind_config E s =
        (Inr False, with_findings s ([''Failed to parse Kind config: '' @ e], []))"
    by (simp add: validate_kind_config_def bnd_def append_error_findings ret_def)
next
  assume a: "path_exists E (kind_config_path E) \<and> load_yaml E (kind_config_path E) = Inr config
       \<and> is_dict config \<and> entry config ''nodes'' \<in> {None, Some (YList ns)}
       \<and> (entry config ''nodes'' = None \<longrightarrow> ns = []) \<and> list_all is_dict ns"
  then have d: "is_dict config" and ds: "list_all is_dict ns" by simp_all
  from a have nodes: "(case entry config ''nodes'' of Some v \<Rightarrow> v | None \<Rightarrow> YList []) = YList ns"
    by (auto split: option.splits)
  have it: "py_iter (YList xs) = Inr xs" for xs by (simp add: py_iter_def)
  have tr: "truthy (YList ns) = (ns \<noteq> [])" by (simp add: truthy_def)
  have kind: "((case entry config ''kind'' of Some v \<Rightarrow> v | None \<Rightarrow> YNull) \<noteq> YStr ''Cluster'')
      = (entry config ''kind'' \<noteq> Some (YStr ''Cluster''))"
    by (auto split: option.splits)
  from a have ex: "path_exists E (kind_config_path E)"
    and ld: "load_yaml E (kind_config_path E) = Inr config"
    by simp_all
  have pm: "bnd (port_mappings ns) f s' =
      f () (with_findings s' ([],
        map (\<lambda>n. ''No port mappings defined for control plane - services won't be accessible'')
          (filter (\<lambda>n. has_role n \<and> lacks_ports n) ns)))" for f s'
    by (simp add: bnd_def port_mappings_dicts [OF ds])
  show "validate_kind_config E s =
        (Inr (errors (with_findings s (kind_findings config ns)) = []),
         with_findings s (kind_findings config ns))"
    by (simp add: validate_kind_config_def ex ld run_simps ebind_def no_errors_def
        is_dict_get [OF d] nodes it tr kind control_plane_nodes_dicts [OF ds]
        pm kind_findings_def)
qed

text \<open>
  No file: one error. A file that does not load: one error. The document with kind
  \<^verbatim>\<open>Cluster\<close> and one control-plane node without port mappings: no error, one warning.
\<close>

theorem validate_kind_config_checks_witness:
  "validate_kind_config no_files fresh =
     (Inr False, \<lparr>errors = [''Missing Kind cluster configuration file''], warnings = []\<rparr>)
   \<and> validate_kind_config unreadable_files fresh =
     (Inr False,
      \<lparr>errors = [''Failed to parse Kind config: mapping values are not allowed here''],
       warnings = []\<rparr>)
   \<and> validate_kind_config (all_files kind_without_ports) fresh =
     (Inr True,
      \<lparr>errors = [],
       warnings =
         [''No port mappings defined for control plane - services won't be accessible'']\<rparr>)"
proof (intro conjI)
  have h: "\<not> path_exists no_files (kind_config_path no_files)"
    by (simp add: no_files_def)
  from validate_kind_config_checks [of no_files fresh "[]" YNull "[]"] h
  show "validate_kind_config no_files fresh =
     (Inr False, \<lparr>errors = [''Missing Kind cluster configuration file''], warnings = []\<rparr>)"
    by (simp add: with_findings_def fresh_def)
next
  have h: "path_exists unreadable_files (kind_config_path unreadable_files)
      \<and> load_yaml unreadable_files (kind_config_path unreadable_files)
          = Inl ''mapping values are not allowed here''"
    by (simp add: unreadable_files_def)
  from validate_kind_config_checks
    [of unreadable_files fresh "''mapping values are not allowed here''" YNull "[]"] h
  show "validate_kind_config unreadable_files fresh =
     (Inr False,
      \<lparr>errors = [''Failed to parse Kind config: mapping values are not allowed here''],
       warnings = []\<rparr>)"
    by (simp add: with_findings_def fresh_def)
next
  let ?E = "all_files kind_without_ports"
  let ?ns = "[YMap [(YStr ''role'', YStr ''control-plane'')]]"
  have h: "path_exists ?E (kind_config_path ?E)
       \<and> load_yaml ?E (kind_config_path ?E) = Inr kind_without_ports
       \<and> is_dict kind_without_ports
       \<and> entry kind_without_ports ''nodes'' \<in> {None, Some (YList ?ns)}
       \<and> (entry kind_without_ports ''nodes'' = None \<longrightarrow> ?ns = []) \<and> list_all is_dict ?ns"
    by (simp add: all_files_def kind_without_ports_def is_dict_def entry_def)
  have f: "kind_findings kind_without_ports ?ns =
      ([], [''No port mappings defined for control plane - services won't be accessible''])"
    by (simp add: kind_findings_def kind_without_ports_def entry_def has_role_def
        lacks_ports_def)
  from validate_kind_config_checks [of ?E fresh "[]" kind_without_ports ?ns] h
  have "validate_kind_config ?E fresh =
        (Inr (errors (with_findings fresh (kind_findings kind_without_ports ?ns)) = []),
         with_findings fresh (kind_findings kind_without_ports ?ns))"
    by blast
  then show "validate_kind_config ?E fresh =
     (Inr True,
      \<lparr>errors = [],
       warnings =
         [''No port mappings defined for control plane - services won't be accessible'']\<rparr>)"
    by (simp add: f with_findings_def fresh_def)
qed

text \<open>
  Claim C7 promises, for a document that declares no node, the error for no node and the
  error for no control-plane node. The code fetches the nodes with the default \<open>[]\<close> and
  tests them with \<^verbatim>\<open>if not nodes\<close>, so it means to handle a document without nodes;
  but when the key \<^verbatim>\<open>nodes\<close> is there without a value, its value is \<^verbatim>\<open>None\<close>:
  the error for no node is appended, and then the list comprehension iterates over
  \<^verbatim>\<open>None\<close> and raises \<^verbatim>\<open>TypeError\<close>. The second error is never appended and
  the validator does not return.
\<close>

theorem validate_kind_config_null_nodes:
  "entry kind_null_nodes ''kind'' = Some (YStr ''Cluster'')
   \<and> entry kind_null_nodes ''nodes'' = Some YNull
   \<and> \<not> truthy YNull
   \<and> py_iter YNull = Inl TypeError
   \<and> validate_kind_config (all_files kind_null_nodes) fresh =
       (Inl TypeError, \<lparr>errors = [''At least one node must be defined''], warnings = []\<rparr>)"
  by code_simp

subsection \<open>The resource ratio\<close>

lemma bnd_returns:
  assumes "fst (bnd m f s) = Inr y"
  obtains x where "fst (m s) = Inr x" and "fst (f x (snd (m s))) = Inr y"
    and "snd (bnd m f s) = snd (f x (snd (m s)))"
proof (cases "m s")
  case (Pair r s')
  show ?thesis
  proof (cases r)
    case (Inl e)
    with Pair assms show ?thesis by (simp add: bnd_def)
  next
    case (Inr x)
    with Pair assms that [of x] show ?thesis by (simp add: bnd_def)
  qed
qed

lemma is_dict_contains: "is_dict c \<Longrightarrow> py_contains k c = Inr (entry c k \<noteq> None)"
  by (cases c) (simp_all add: is_dict_def py_contains_def entry_def)

lemma entry_item: "entry c k = Some v \<Longrightarrow> py_item c k = Inr v"
  by (cases c) (simp_all add: py_item_def entry_def)

lemma entry_get: "entry c k = Some v \<Longrightarrow> py_get c k d = Inr v"
  by (cases c) (simp_all add: py_get_def entry_def)

lemma in_both_dicts:
  "is_dict a \<Longrightarrow> is_dict b \<Longrightarrow> in_both k a b = Inr (entry a k \<noteq> None \<and> entry b k \<noteq> None)"
  by (simp add: in_both_def is_dict_contains ebind_def)

lemma ratio_findings_CPU:
  "ratio_findings service ''CPU'' lm rq lim req =
     (if lim < req then
        ([service @ '': CPU limit ('' @ py_str lm @ '') is less than request (''
            @ py_str rq @ '')''], [])
      else if req * 4 < lim then
        ([], [service @ '': CPU limit is much higher than request - consider adjusting''])
      else ([], []))"
  by (simp add: ratio_findings_def)

lemma ratio_findings_Memory:
  "ratio_findings service ''Memory'' lm rq lim req =
     (if lim < req then
        ([service @ '': Memory limit ('' @ py_str lm @ '') is less than request (''
            @ py_str rq @ '')''], [])
      else if req * 4 < lim then
        ([], [service @ '': Memory limit is much higher than request - consider adjusting''])
      else ([], []))"
  by (simp add: ratio_findings_def)

lemma ratio_cpu_returns:
  assumes d: "is_dict requests" "is_dict limits"
    and r: "fst (ratio_cpu requests limits service s) = Inr ()"
  shows "snd (ratio_cpu requests limits service s) =
    with_findings s (resource_findings service ''CPU'' parse_cpu_value requests limits ''cpu'')"
proof (cases "entry requests ''cpu''")
  case None
  with d show ?thesis
    by (simp add: ratio_cpu_def in_both_dicts run_simps ret_apply resource_findings_def)
next
  case rq: (Some rq)
  show ?thesis
  proof (cases "entry limits ''cpu''")
    case None
    with d rq show ?thesis
      by (simp add: ratio_cpu_def in_both_dicts run_simps ret_apply resource_findings_def)
  next
    case lm: (Some lm)
    show ?thesis
    proof (cases "parse_cpu_value rq")
      case (Inl e)
      with d rq lm r show ?thesis
        by (simp add: ratio_cpu_def in_both_dicts run_simps entry_item)
    next
      case req: (Inr req)
      show ?thesis
      proof (cases "parse_cpu_value lm")
        case (Inl e)
        with d rq lm req r show ?thesis
          by (simp add: ratio_cpu_def in_both_dicts run_simps entry_item)
      next
        case (Inr lim)
        with d rq lm req show ?thesis
          by (simp add: ratio_cpu_def in_both_dicts run_simps ret_apply entry_item
              resource_findings_def ratio_findings_CPU)
      qed
    qed
  qed
qed

lemma ratio_memory_returns:
  assumes d: "is_dict requests" "is_dict limits"
    and r: "fst (ratio_memory requests limits service s) = Inr ()"
  shows "snd (ratio_memory requests limits service s) =
    with_findings s
      (resource_findings service ''Memory'' parse_memory_size requests limits ''memory'')"
proof (cases "entry requests ''memory''")
  case None
  with d show ?thesis
    by (simp add: ratio_memory_def in_both_dicts run_simps ret_apply resource_findings_def)
next
  case rq: (Some rq)
  show ?thesis
  proof (cases "entry limits ''memory''")
    case None
    with d rq show ?thesis
      by (simp add: ratio_memory_def in_both_dicts run_simps ret_apply resource_findings_def)
  next
    case lm: (Some lm)
    show ?thesis
    proof (cases "parse_memory_size rq")
      case (Inl e)
      with d rq lm r show ?thesis
        by (simp add: ratio_memory_def in_both_dicts run_simps entry_item)
    next
      case req: (Inr req)
      show ?thesis
      proof (cases "parse_memory_size lm")
        case (Inl e)
        with d rq lm req r show ?thesis
          by (simp add: ratio_memory_def in_both_dicts run_simps entry_item)
      next
        case (Inr lim)
        with d rq lm req show ?thesis
          by (simp add: ratio_memory_def in_both_dicts run_simps ret_apply entry_item
              resource_findings_def ratio_findings_Memory)
      qed
    qed
  qed
qed

text \<open>
  Claim C1, as the code has it. For resources whose requests and limits are mappings, a
  call of \<^verbatim>\<open>_validate_resource_ratio\<close> that returns leaves the findings for the CPU
  followed by those for the memory, and nothing else: for a resource that both mappings
  have, one error naming the service, the resource and the two quantities when the limit is
  below the request; if it is not, one warning naming the service and the resource when the
  limit is above four times the request; otherwise nothing.
\<close>

theorem resource_ratio_findings:
  assumes "entry resources ''requests'' = Some requests"
    and "entry resources ''limits'' = Some limits"
    and "is_dict requests" and "is_dict limits"
    and "fst (validate_resource_ratio resources service s) = Inr ()"
  shows "snd (validate_resource_ratio resources service s) =
    with_findings s
      (both_findings
         (resource_findings service ''CPU'' parse_cpu_value requests limits ''cpu'')
         (resource_findings service ''Memory'' parse_memory_size requests limits ''memory''))"
proof -
  have eq: "validate_resource_ratio resources service =
      bnd (ratio_cpu requests limits service) (\<lambda>u. ratio_memory requests limits service)"
    using assms(1,2) by (simp add: validate_resource_ratio_def entry_get run_simps)
  from assms(5) obtain u
    where c: "fst (ratio_cpu requests limits service s) = Inr u"
      and m: "fst (ratio_memory requests limits service
                (snd (ratio_cpu requests limits service s))) = Inr ()"
      and e: "snd (validate_resource_ratio resources service s) =
                snd (ratio_memory requests limits service
                  (snd (ratio_cpu requests limits service s)))"
    unfolding eq by (rule bnd_returns)
  from c have c': "fst (ratio_cpu requests limits service s) = Inr ()" by simp
  have 1: "snd (ratio_cpu requests limits service s) =
      with_findings s (resource_findings service ''CPU'' parse_cpu_value requests limits ''cpu'')"
    using assms(3,4) c' by (rule ratio_cpu_returns)
  have 2: "snd (ratio_memory requests limits service (snd (ratio_cpu requests limits service s)))
      = with_findings (snd (ratio_cpu requests limits service s))
          (resource_findings service ''Memory'' parse_memory_size requests limits ''memory'')"
    using assms(3,4) m by (rule ratio_memory_returns)
  let ?A = "resource_findings service ''CPU'' parse_cpu_value requests limits ''cpu''"
  let ?B = "resource_findings service ''Memory'' parse_memory_size requests limits ''memory''"
  have "snd (validate_resource_ratio resources service s) =
      with_findings (snd (ratio_cpu requests limits service s)) ?B"
    using e 2 by (rule trans)
  also have "\<dots> = with_findings (with_findings s ?A) ?B"
    by (simp only: 1)
  also have "\<dots> = with_findings s (both_findings ?A ?B)"
    by (simp add: both_findings_def with_findings_def)
  finally show ?thesis .
qed

text \<open>
  The limit 250m under the request 500m is one error and the memory, within the bounds,
  is silent; the limit 500m over the request 100m, five times as much, is one warning.
\<close>

theorem resource_ratio_findings_witness:
  "snd (validate_resource_ratio (resources_of ''500m'' ''512Mi'' ''250m'' ''512Mi'') ''api'' fresh)
     = \<lparr>errors = [''api: CPU limit (250m) is less than request (500m)''], warnings = []\<rparr>
   \<and> snd (validate_resource_ratio (resources_of ''100m'' ''512Mi'' ''500m'' ''512Mi'') ''api''
        fresh)
     = \<lparr>errors = [],
        warnings = [''api: CPU limit is much higher than request - consider adjusting'']\<rparr>"
proof (intro conjI)
  let ?rq = "YMap [(YStr ''cpu'', YStr ''500m''), (YStr ''memory'', YStr ''512Mi'')]"
  let ?lm = "YMap [(YStr ''cpu'', YStr ''250m''), (YStr ''memory'', YStr ''512Mi'')]"
  let ?r = "resources_of ''500m'' ''512Mi'' ''250m'' ''512Mi''"
  have h: "entry ?r ''requests'' = Some ?rq" "entry ?r ''limits'' = Some ?lm"
    "is_dict ?rq" "is_dict ?lm"
    by (simp_all add: resources_of_def entry_def is_dict_def)
  have n: "fst (validate_resource_ratio ?r ''api'' fresh) = Inr ()"
    by code_simp
  have f: "with_findings fresh
      (both_findings
         (resource_findings ''api'' ''CPU'' parse_cpu_value ?rq ?lm ''cpu'')
         (resource_findings ''api'' ''Memory'' parse_memory_size ?rq ?lm ''memory''))
     = \<lparr>errors = [''api: CPU limit (250m) is less than request (500m)''], warnings = []\<rparr>"
    by code_simp
  from resource_ratio_findings [OF h n] f
  show "snd (validate_resource_ratio ?r ''api'' fresh)
     = \<lparr>errors = [''api: CPU limit (250m) is less than request (500m)''], warnings = []\<rparr>"
    by simp
next
  let ?rq = "YMap [(YStr ''cpu'', YStr ''100m''), (YStr ''memory'', YStr ''512Mi'')]"
  let ?lm = "YMap [(YStr ''cpu'', YStr ''500m''), (YStr ''memory'', YStr ''512Mi'')]"
  let ?r = "resources_of ''100m'' ''512Mi'' ''500m'' ''512Mi''"
  have h: "entry ?r ''requests'' = Some ?rq" "entry ?r ''limits'' = Some ?lm"
    "is_dict ?rq" "is_dict ?lm"
    by (simp_all add: resources_of_def entry_def is_dict_def)
  have n: "fst (validate_resource_ratio ?r ''api'' fresh) = Inr ()"
    by code_simp
  have f: "with_findings fresh
      (both_findings
         (resource_findings ''api'' ''CPU'' parse_cpu_value ?rq ?lm ''cpu'')
         (resource_findings ''api'' ''Memory'' parse_memory_size ?rq ?lm ''memory''))
     = \<lparr>errors = [],
        warnings = [''api: CPU limit is much higher than request - consider adjusting'']\<rparr>"
    by code_simp
  from resource_ratio_findings [OF h n] f
  show "snd (validate_resource_ratio ?r ''api'' fresh)
     = \<lparr>errors = [],
        warnings = [''api: CPU limit is much higher than request - consider adjusting'']\<rparr>"
    by simp
qed

text \<open>
  Claim C1 as it is written asks for a warning whenever the limit is above four times
  the request. With a request of -100m and a limit of -200m the limit is above four times
  the request (-400) and below the request: the code records the error and no warning.
\<close>

theorem resource_ratio_counterexample:
  "parse_cpu_value (YStr ''-100m'') = Inr (- 100)
   \<and> parse_cpu_value (YStr ''-200m'') = Inr (- 200)
   \<and> (- 100) * 4 < (- 200 :: int)
   \<and> validate_resource_ratio (resources_of ''-100m'' ''512Mi'' ''-200m'' ''512Mi'') ''api'' fresh
       = (Inr (),
          \<lparr>errors = [''api: CPU limit (-200m) is less than request (-100m)''],
           warnings = []\<rparr>)"
  by code_simp

subsection \<open>The size of the database volume\<close>

lemma check_authentication_errors: "errors (snd (check_authentication db_config s)) = errors s"
  by (auto simp: check_authentication_def bnd_def lift_def ret_def append_warning_def
      split: sum.splits prod.splits if_splits)

lemma size_invalid_parsed:
  assumes "parse_storage_size sz = Inr r"
  shows "size_invalid sz = Inr (r = None \<or> r = Some 0)"
proof (cases "truthy sz")
  case True
  with assms show ?thesis
    by (auto simp: size_invalid_def ebind_def split: option.splits)
next
  case False
  then have "parse_storage_size sz = Inr None" by (simp add: parse_storage_size_def)
  with assms False show ?thesis by (simp add: size_invalid_def)
qed

lemma size_invalid_raises:
  assumes "parse_storage_size sz = Inl e"
  shows "size_invalid sz = Inl e"
proof (cases "truthy sz")
  case True
  with assms show ?thesis by (simp add: size_invalid_def ebind_def)
next
  case False
  then have "parse_storage_size sz = Inr None" by (simp add: parse_storage_size_def)
  with assms show ?thesis by simp
qed

lemma check_persistence_enabled:
  assumes "entry db_config ''primary'' = Some primary"
    and "entry primary ''persistence'' = Some persistence"
    and "is_dict persistence"
    and "truthy (case entry persistence ''enabled'' of Some v \<Rightarrow> v | None \<Rightarrow> YNull)"
  shows "check_persistence db_config =
     bnd (lift (size_invalid (case entry persistence ''size'' of Some v \<Rightarrow> v | None \<Rightarrow> YStr [])))
       (\<lambda>bad. if bad then append_error ''Invalid database storage size'' else ret ())"
proof -
  from assms(1) have d1: "is_dict db_config" by (cases db_config) (simp_all add: entry_def is_dict_def)
  from assms(2) have d2: "is_dict primary" by (cases primary) (simp_all add: entry_def is_dict_def)
  show ?thesis
    using assms
    by (simp add: check_persistence_def primary_persistence_def is_dict_contains [OF d1]
        is_dict_contains [OF d2] entry_item ebind_def run_simps is_dict_get)
qed

text \<open>
  Claim C2, as the code has it. With persistence enabled, the error is appended when the
  size is absent, empty or not a number, and also when it is the number zero: the condition
  tests the result of the parser for truth. A size that parses to another number appends
  nothing, and a size on which the parser raises ends the validator with that exception.
\<close>

theorem database_size_error:
  assumes "entry db_config ''primary'' = Some primary"
    and "entry primary ''persistence'' = Some persistence"
    and "is_dict persistence"
    and "truthy (case entry persistence ''enabled'' of Some v \<Rightarrow> v | None \<Rightarrow> YNull)"
    and "sz = (case entry persistence ''size'' of Some v \<Rightarrow> v | None \<Rightarrow> YStr [])"
  shows "(parse_storage_size sz = Inr r \<longrightarrow>
            errors (snd (validate_database_config db_config s)) =
              errors s @ (if r = None \<or> r = Some 0 then [''Invalid database storage size'']
                          else []))
         \<and> (parse_storage_size sz = Inl e \<longrightarrow>
            validate_database_config db_config s = (Inl e, s))"
proof (intro conjI impI)
  note cp = check_persistence_enabled [OF assms(1-4), folded assms(5)]
  {
    assume "parse_storage_size sz = Inr r"
    then have "size_invalid sz = Inr (r = None \<or> r = Some 0)" by (rule size_invalid_parsed)
    then have "validate_database_config db_config s =
        check_authentication db_config
          (with_findings s
            (if r = None \<or> r = Some 0 then [''Invalid database storage size''] else [], []))"
      by (simp add: validate_database_config_def cp run_simps)
    then show "errors (snd (validate_database_config db_config s)) =
              errors s @ (if r = None \<or> r = Some 0 then [''Invalid database storage size'']
                          else [])"
      by (simp add: check_authentication_errors with_findings_def)
  }
  {
    assume "parse_storage_size sz = Inl e"
    then have "size_invalid sz = Inl e" by (rule size_invalid_raises)
    then show "validate_database_config db_config s = (Inl e, s)"
      by (simp add: validate_database_config_def cp bnd_def lift_def)
  }
qed


text \<open>
  The size 10Gi appends nothing, a size that is not a number appends the error, and the
  size 10xGi raises.
\<close>

theorem database_size_error_witness:
  "errors (snd (validate_database_config (database_of (YStr ''10Gi'')) fresh)) = []
   \<and> errors (snd (validate_database_config (database_of (YStr ''plenty'')) fresh))
       = [''Invalid database storage size'']
   \<and> validate_database_config (database_of (YStr ''10xGi'')) fresh = (Inl ValueError, fresh)"
proof -
  let ?p = "\<lambda>sz. YMap [(YStr ''enabled'', YBool True), (YStr ''size'', sz)]"
  let ?q = "\<lambda>sz. YMap [(YStr ''persistence'', ?p sz)]"
  have h: "entry (database_of sz) ''primary'' = Some (?q sz)"
    "entry (?q sz) ''persistence'' = Some (?p sz)"
    "is_dict (?p sz)"
    "truthy (case entry (?p sz) ''enabled'' of Some v \<Rightarrow> v | None \<Rightarrow> YNull)"
    "sz = (case entry (?p sz) ''size'' of Some v \<Rightarrow> v | None \<Rightarrow> YStr [])" for sz
    by (simp_all add: database_of_def entry_def is_dict_def truthy_def)
  have p: "parse_storage_size (YStr ''10Gi'') = Inr (Some 10240)"
    "parse_storage_size (YStr ''plenty'') = Inr None"
    "parse_storage_size (YStr ''10xGi'') = Inl ValueError"
    by code_simp+
  have e: "errors fresh = []" by (simp add: fresh_def)
  from database_size_error [OF h, of "YStr ''10Gi''" "Some 10240" fresh ValueError]
    database_size_error [OF h, of "YStr ''plenty''" None fresh ValueError]
    database_size_error [OF h, of "YStr ''10xGi''" None fresh ValueError]
    p e
  show ?thesis by simp
qed

text \<open>
  Claim C2 as it is written promises no error for a size that parses to zero. The sizes
  \<^verbatim>\<open>0\<close> and \<^verbatim>\<open>0Gi\<close> parse to 0, which is not \<^verbatim>\<open>None\<close>, and the error is
  appended for both.
\<close>

theorem database_size_zero_counterexample:
  "parse_storage_size (YStr ''0'') = Inr (Some 0)
   \<and> parse_storage_size (YStr ''0Gi'') = Inr (Some 0)
   \<and> errors (snd (validate_database_config (database_of (YStr ''0'')) fresh))
       = [''Invalid database storage size'']
   \<and> errors (snd (validate_database_config (database_of (YStr ''0Gi'')) fresh))
       = [''Invalid database storage size'']"
  by code_simp

subsection \<open>The aggregate capacity\<close>

lemma ebind_Inr: "ebind m f = Inr y \<Longrightarrow> \<exists>x. m = Inr x \<and> f x = Inr y"
  by (cases m) (simp_all add: ebind_def)

lemma ebind_left: "ebind (Inr x) f = f x"
  by (simp add: ebind_def)

lemma contains_Inr_entry:
  "py_contains k c = Inr True \<Longrightarrow> py_item c k = Inr v \<Longrightarrow> entry c k = Some v"
  by (cases c) (auto simp: py_contains_def py_item_def entry_def split: option.splits)

lemma contains_Inr_False: "py_contains k c = Inr False \<Longrightarrow> entry c k = None"
  by (cases c) (auto simp: py_contains_def entry_def)

lemma get_Inr: "py_get c k d = Inr v \<Longrightarrow> v = (case entry c k of Some w \<Rightarrow> w | None \<Rightarrow> d)"
  by (cases c) (auto simp: py_get_def entry_def)

lemma get_Inr_dict: "py_get c k d = Inr v \<Longrightarrow> is_dict c"
  by (cases c) (auto simp: py_get_def is_dict_def)

lemma item_Inr: "py_item c k = Inr v \<Longrightarrow> entry c k = Some v"
  by (cases c) (auto simp: py_item_def entry_def split: option.splits)

text \<open>What one \<^verbatim>\<open>resources\<close> block adds to the totals.\<close>

lemma add_requests_sum:
  assumes "add_requests resources tot = Inr t"
  shows "t = (fst tot + fst (block_requests (entry resources ''requests'')),
              snd tot + snd (block_requests (entry resources ''requests'')))"
proof -
  from assms obtain x where x: "py_contains ''requests'' resources = Inr x"
    and rest: "(if x then
         ebind (py_item resources ''requests'') (\<lambda>rq.
         ebind (ebind (py_get rq ''cpu'' (YStr ''0'')) parse_cpu_value) (\<lambda>cpu.
         ebind (py_item resources ''requests'') (\<lambda>rq'.
         ebind (ebind (py_get rq' ''memory'' (YStr ''0'')) parse_memory_size) (\<lambda>memory.
           Inr (fst tot + cpu, snd tot + memory)))))
       else Inr tot) = Inr t"
    unfolding add_requests_def by (blast dest: ebind_Inr)
  show ?thesis
  proof (cases x)
    case False
    with x rest show ?thesis by (simp add: contains_Inr_False block_requests_def)
  next
    case True
    with rest obtain rq where rq: "py_item resources ''requests'' = Inr rq"
      and r2: "ebind (ebind (py_get rq ''cpu'' (YStr ''0'')) parse_cpu_value) (\<lambda>cpu.
         ebind (py_item resources ''requests'') (\<lambda>rq'.
         ebind (ebind (py_get rq' ''memory'' (YStr ''0'')) parse_memory_size) (\<lambda>memory.
           Inr (fst tot + cpu, snd tot + memory)))) = Inr t"
      by (auto dest: ebind_Inr)
    from r2 obtain cpu where cpu: "ebind (py_get rq ''cpu'' (YStr ''0'')) parse_cpu_value = Inr cpu"
      and r3: "ebind (py_item resources ''requests'') (\<lambda>rq'.
         ebind (ebind (py_get rq' ''memory'' (YStr ''0'')) parse_memory_size) (\<lambda>memory.
           Inr (fst tot + cpu, snd tot + memory))) = Inr t"
      by (blast dest: ebind_Inr)
    from r3 rq obtain memory
      where mem: "ebind (py_get rq ''memory'' (YStr ''0'')) parse_memory_size = Inr memory"
        and t: "t = (fst tot + cpu, snd tot + memory)"
      by (auto simp: ebind_def split: sum.splits)
    from cpu obtain cv where cv: "py_get rq ''cpu'' (YStr ''0'') = Inr cv"
      and pc: "parse_cpu_value cv = Inr cpu"
      by (blast dest: ebind_Inr)
    from mem obtain mv where mv: "py_get rq ''memory'' (YStr ''0'') = Inr mv"
      and pm: "parse_memory_size mv = Inr memory"
      by (blast dest: ebind_Inr)
    have "quantity parse_cpu_value rq ''cpu'' = cpu"
      using get_Inr [OF cv] pc by (simp add: quantity_def)
    moreover have "quantity parse_memory_size rq ''memory'' = memory"
      using get_Inr [OF mv] pm by (simp add: quantity_def)
    ultimately show ?thesis
      using t item_Inr [OF rq] by (simp add: block_requests_def)
  qed
qed


lemma collect_services_step:
  assumes d: "is_dict values"
    and c: "collect_services values (service # rest) tot = Inr t"
  shows "collect_services values rest
           (fst tot + fst (requested values [service]),
            snd tot + snd (requested values [service])) = Inr t"
proof (cases "entry values service")
  case None
  then have "requested values [service] = (0, 0)"
    by (simp add: requested_def block_requests_def)
  with c None d show ?thesis
    by (simp add: is_dict_contains ebind_def)
next
  case (Some sv)
  with c d have "ebind (py_get sv ''resources'' (YMap [])) (\<lambda>resources.
         ebind (add_requests resources tot) (collect_services values rest)) = Inr t"
    by (simp add: is_dict_contains entry_item ebind_def)
  then obtain resources tot' where g: "py_get sv ''resources'' (YMap []) = Inr resources"
    and a: "add_requests resources tot = Inr tot'"
    and r: "collect_services values rest tot' = Inr t"
    by (blast dest: ebind_Inr)
  have "entry resources ''requests'' = path_entry values [service, ''resources'', ''requests'']"
    using get_Inr [OF g] Some by (simp add: entry_def split: option.splits)
  then have "block_requests (entry resources ''requests'') = requested values [service]"
    by (simp add: requested_def)
  with add_requests_sum [OF a] r show ?thesis by simp
qed

lemma part_resources_sum:
  assumes sv: "entry values service = Some sv"
    and p: "part_resources values service part = Inr r"
  shows "\<exists>resources. r = Some resources
     \<and> entry resources ''requests'' = path_entry values [service, part, ''resources'', ''requests'']"
proof -
  from p sv obtain q resources where q: "py_item sv part = Inr q"
    and g: "py_get q ''resources'' (YMap []) = Inr resources" and r: "r = Some resources"
    by (auto simp: part_resources_def entry_item ebind_def split: sum.splits)
  have "entry resources ''requests'' = path_entry values [service, part, ''resources'', ''requests'']"
    using get_Inr [OF g] item_Inr [OF q] sv by (simp add: entry_def split: option.splits)
  with r show ?thesis by simp
qed

lemma backing_resources_sum:
  assumes sv: "entry values service = Some sv"
    and part: "(service, part) \<in> {(''postgresql'', ''primary''), (''redis'', ''master'')}"
    and b: "backing_resources values service = Inr r"
  shows "block_requests (case r of None \<Rightarrow> None | Some resources \<Rightarrow> entry resources ''requests'')
     = requested values [service, part]"
proof -
  from b sv part obtain x where x: "py_contains part sv = Inr x"
    and rest: "(if x then part_resources values service part else Inr None) = Inr r"
    by (auto simp: backing_resources_def entry_item ebind_def split: sum.splits if_splits)
  show ?thesis
  proof (cases x)
    case False
    with x rest sv show ?thesis
      by (auto simp: requested_def block_requests_def dest: contains_Inr_False)
  next
    case True
    with rest have "part_resources values service part = Inr r" by simp
    from part_resources_sum [OF sv this] show ?thesis
      by (auto simp: requested_def)
  qed
qed

lemma collect_backing_step:
  assumes d: "is_dict values"
    and part: "(service, part) \<in> {(''postgresql'', ''primary''), (''redis'', ''master'')}"
    and c: "collect_backing values (service # rest) tot = Inr t"
  shows "collect_backing values rest
           (fst tot + fst (requested values [service, part]),
            snd tot + snd (requested values [service, part])) = Inr t"
proof (cases "entry values service")
  case None
  then have "requested values [service, part] = (0, 0)"
    by (simp add: requested_def block_requests_def)
  with c None d show ?thesis
    by (simp add: is_dict_contains ebind_def)
next
  case (Some sv)
  with c d obtain r where b: "backing_resources values service = Inr r"
    and rest: "(case r of
             None \<Rightarrow> collect_backing values rest tot
           | Some resources \<Rightarrow>
               ebind (add_requests resources tot) (collect_backing values rest)) = Inr t"
    by (auto simp: is_dict_contains ebind_left dest: ebind_Inr)
  note s = backing_resources_sum [OF Some part b]
  show ?thesis
  proof (cases r)
    case None
    with s have "requested values [service, part] = (0, 0)"
      by (simp add: block_requests_def)
    with None rest show ?thesis by simp
  next
    case (Some resources)
    with rest obtain tot' where a: "add_requests resources tot = Inr tot'"
      and r: "collect_backing values rest tot' = Inr t"
      by (auto dest: ebind_Inr)
    from s Some have "block_requests (entry resources ''requests'') = requested values [service, part]"
      by simp
    with add_requests_sum [OF a] r show ?thesis by simp
  qed
qed

lemma total_requests_sum:
  assumes d: "is_dict values" and t: "total_requests values = Inr tot"
  shows "tot = (fst (requested values [''api'']) + fst (requested values [''frontend''])
                 + fst (requested values [''postgresql'', ''primary''])
                 + fst (requested values [''redis'', ''master'']),
                snd (requested values [''api'']) + snd (requested values [''frontend''])
                 + snd (requested values [''postgresql'', ''primary''])
                 + snd (requested values [''redis'', ''master'']))"
proof -
  from t obtain t1 where 1: "collect_services values [''api'', ''frontend''] (0, 0) = Inr t1"
    and 2: "collect_backing values [''postgresql'', ''redis''] t1 = Inr tot"
    unfolding total_requests_def by (blast dest: ebind_Inr)
  from collect_services_step [OF d collect_services_step [OF d 1]]
  have t1: "t1 = (fst (requested values [''api'']) + fst (requested values [''frontend'']),
                  snd (requested values [''api'']) + snd (requested values [''frontend'']))"
    by simp
  have "collect_backing values []
          (fst t1 + fst (requested values [''postgresql'', ''primary''])
             + fst (requested values [''redis'', ''master'']),
           snd t1 + snd (requested values [''postgresql'', ''primary''])
             + snd (requested values [''redis'', ''master''])) = Inr tot"
    using collect_backing_step [OF d _ collect_backing_step [OF d _ 2], of "''master''" "''primary''"]
    by simp
  with t1 show ?thesis by simp
qed

text \<open>
  Claim C5. \<^verbatim>\<open>_validate_resource_limits\<close> on a values mapping whose requests it can
  read: the totals are the sums of what \<^verbatim>\<open>api\<close>, \<^verbatim>\<open>frontend\<close>,
  \<^verbatim>\<open>postgresql.primary\<close> and \<^verbatim>\<open>redis.master\<close> request, a service without a
  requests block counting as nothing and a block without a key as the text \<^verbatim>\<open>0\<close>,
  which is 0; the findings are one warning with the CPU total when it is above 4000, then one
  warning with the memory total when it is above 8192, and nothing else.
\<close>

theorem capacity_warnings_for_totals:
  assumes "is_dict values" and "total_requests values = Inr tot"
  shows "fst tot = fst (requested values [''api'']) + fst (requested values [''frontend''])
                 + fst (requested values [''postgresql'', ''primary''])
                 + fst (requested values [''redis'', ''master''])
     \<and> snd tot = snd (requested values [''api'']) + snd (requested values [''frontend''])
                 + snd (requested values [''postgresql'', ''primary''])
                 + snd (requested values [''redis'', ''master''])
     \<and> (path_entry values (path @ [''resources'', ''requests'']) = None
          \<longrightarrow> requested values path = (0, 0))
     \<and> parse_cpu_value (YStr ''0'') = Inr 0 \<and> parse_memory_size (YStr ''0'') = Inr 0
     \<and> validate_resource_limits values s = (Inr (), with_findings s ([], capacity_warnings tot))"
proof (intro conjI impI)
  from total_requests_sum [OF assms]
  show "fst tot = fst (requested values [''api'']) + fst (requested values [''frontend''])
                 + fst (requested values [''postgresql'', ''primary''])
                 + fst (requested values [''redis'', ''master''])"
    and "snd tot = snd (requested values [''api'']) + snd (requested values [''frontend''])
                 + snd (requested values [''postgresql'', ''primary''])
                 + snd (requested values [''redis'', ''master''])"
    by simp_all
  show "requested values path = (0, 0)"
    if "path_entry values (path @ [''resources'', ''requests'']) = None"
    using that by (simp add: requested_def block_requests_def)
  show "parse_cpu_value (YStr ''0'') = Inr 0" by code_simp
  show "parse_memory_size (YStr ''0'') = Inr 0" by code_simp
  show "validate_resource_limits values s = (Inr (), with_findings s ([], capacity_warnings tot))"
    using assms(2)
    by (simp add: validate_resource_limits_def run_simps ret_apply capacity_warnings_def)
qed

text \<open>
  Requests of 2 cores, 1500m, 1.5 cores and an empty block add up to 5000m and one
  warning; 1 core, 500m, 1.5 cores and an empty block add up to 3000m and none. The 64
  cores of the section \<^verbatim>\<open>worker\<close> are not counted.
\<close>

theorem capacity_warnings_for_totals_witness:
  "validate_resource_limits (requesting ''2'' ''1500m'' ''1.5'') fresh =
     (Inr (),
      \<lparr>errors = [],
       warnings = [''Total CPU requests (5000m) may exceed development machine capacity'']\<rparr>)
   \<and> validate_resource_limits (requesting ''1'' ''500m'' ''1.5'') fresh = (Inr (), fresh)"
proof (intro conjI)
  let ?v = "requesting ''2'' ''1500m'' ''1.5''"
  have d: "is_dict ?v" by (simp add: requesting_def is_dict_def)
  have t: "total_requests ?v = Inr (5000, 1536)" by code_simp
  have w: "with_findings fresh ([], capacity_warnings (5000, 1536)) =
      \<lparr>errors = [],
       warnings = [''Total CPU requests (5000m) may exceed development machine capacity'']\<rparr>"
    by code_simp
  from capacity_warnings_for_totals [OF d t, of "[]" fresh] w
  show "validate_resource_limits ?v fresh =
     (Inr (),
      \<lparr>errors = [],
       warnings = [''Total CPU requests (5000m) may exceed development machine capacity'']\<rparr>)"
    by simp
next
  let ?v = "requesting ''1'' ''500m'' ''1.5''"
  have d: "is_dict ?v" by (simp add: requesting_def is_dict_def)
  have t: "total_requests ?v = Inr (3000, 1536)" by code_simp
  have w: "with_findings fresh ([], capacity_warnings (3000, 1536)) = fresh"
    by code_simp
  from capacity_warnings_for_totals [OF d t, of "[]" fresh] w
  show "validate_resource_limits ?v fresh = (Inr (), fresh)"
    by simp
qed

subsection \<open>Rendering in GB\<close>

lemma bit_length_le:
  "0 \<le> t \<Longrightarrow> t < 2 ^ n \<Longrightarrow> bit_length t \<le> int n"
proof (induction n arbitrary: t)
  case 0
  then have "t = 0" by simp
  then show ?case by (simp add: bit_length.simps)
next
  case (Suc n)
  show ?case
  proof (cases "t \<le> 0")
    case True
    then show ?thesis by (simp add: bit_length.simps)
  next
    case False
    from Suc.prems have "0 \<le> t div 2" and "t div 2 < 2 ^ n" by auto
    then have "bit_length (t div 2) \<le> int n" by (rule Suc.IH)
    with False show ?thesis by (subst bit_length.simps) simp
  qed
qed

lemma bit_length_1024: "bit_length 1024 = 11"
  by code_simp

lemma ilog2_ratio_le: "ilog2_ratio a b \<le> bit_length a - bit_length b"
  by (simp add: ilog2_ratio_def Let_def split: prod.splits)

lemma rne_div_scale:
  assumes "0 < c" and "0 < b"
  shows "rne_div (a * c) (b * c) = rne_div a b"
proof -
  have d: "(a * c) div (b * c) = a div b" using assms by simp
  have m: "(a * c) mod (b * c) = (a mod b) * c" using assms by simp
  have 1: "(b * c < 2 * ((a mod b) * c)) = (b < 2 * (a mod b))"
  proof -
    have "(b * c < (2 * (a mod b)) * c) = (b < 2 * (a mod b))"
      using assms(1) by (simp only: mult_less_cancel_right_pos)
    then show ?thesis by (simp add: mult.assoc)
  qed
  have 2: "(2 * ((a mod b) * c) = b * c) = (2 * (a mod b) = b)"
    using assms(1) by (simp add: mult.assoc [symmetric])
  show ?thesis
    unfolding rne_div_def d m Let_def 1 2 ..
qed

lemma rne_div_exact:
  assumes "0 < b"
  shows "rne_div (a * b) b = a"
  using assms by (simp add: rne_div_def)


lemma true_div_1024_exact:
  assumes "0 < t" and "t < 2 ^ 53"
  shows "\<exists>k. py_true_div t 1024 = Inr (Fin False (t * 2 ^ k) (- int k - 10))"
proof -
  define q where "q = max (ilog2_ratio t 1024) (- 1022)"
  have "bit_length t \<le> int 53" using assms by (intro bit_length_le) simp_all
  with ilog2_ratio_le [of t 1024] have "ilog2_ratio t 1024 \<le> 42"
    by (simp add: bit_length_1024)
  then have q: "q \<le> 42" "- 1022 \<le> q" by (simp_all add: q_def)
  define k where "k = nat (42 - q)"
  from q have k: "int k = 42 - q" by (simp add: k_def)
  then have p: "q - 52 = - int k - 10" by simp
  have n: "nat (int k + 10) = k + 10" "nat (10 + int k) = k + 10" by simp_all
  have m: "rne_div (t * 2 ^ (k + 10)) 1024 = t * 2 ^ k"
  proof -
    have e: "t * 2 ^ (k + 10) = (t * 2 ^ k) * 1024" by (simp add: power_add)
    show ?thesis unfolding e by (rule rne_div_exact) simp
  qed
  have "round_double False t 1024 = Fin False (t * 2 ^ k) (- int k - 10)"
    using assms(1) m
    by (simp add: round_double_def Let_def q_def [symmetric] p scale2_def n)
  with assms(1) show ?thesis
    by (auto simp: py_true_div_def)
qed

lemma gb_text_exact:
  assumes "0 < t" and "t < 2 ^ 53"
  shows "gb_text t = one_decimal t 1024"
proof -
  from true_div_1024_exact [OF assms] obtain k
    where d: "py_true_div t 1024 = Inr (Fin False (t * 2 ^ k) (- int k - 10))"
    by blast
  have n: "nat (int k + 10) = k + 10" "nat (10 + int k) = k + 10" by simp_all
  have "rne_div (t * 2 ^ k * 10) (2 ^ (k + 10)) = rne_div ((10 * t) * 2 ^ k) (1024 * 2 ^ k)"
    by (simp add: power_add mult.commute mult.left_commute)
  also have "\<dots> = rne_div (10 * t) 1024"
    by (rule rne_div_scale) simp_all
  finally have r: "rne_div (t * 2 ^ k * 10) (2 ^ (k + 10)) = rne_div (10 * t) 1024" .
  show ?thesis
    by (simp add: gb_text_def d format_1f_def scale2_def n r one_decimal_def Let_def)
qed

subsection \<open>The storage\<close>

lemma persistence_size_volume:
  assumes "persistence_size p = Inr n"
  shows "n = volume_size (Some p)"
proof -
  from assms obtain en where en: "py_get p ''enabled'' YNull = Inr en"
    and rest: "(if truthy en then
         ebind (py_get p ''size'' (YStr [])) (\<lambda>sz.
         ebind (parse_storage_size sz) (\<lambda>r.
           Inr (case r of None \<Rightarrow> 0 | Some n \<Rightarrow> if n = 0 then 0 else n)))
       else Inr 0) = Inr n"
    unfolding persistence_size_def by (blast dest: ebind_Inr)
  note e = get_Inr [OF en]
  show ?thesis
  proof (cases "truthy en")
    case False
    with rest e show ?thesis by (simp add: volume_size_def)
  next
    case True
    with rest obtain sz r where sz: "py_get p ''size'' (YStr []) = Inr sz"
      and r: "parse_storage_size sz = Inr r"
      and n: "n = (case r of None \<Rightarrow> 0 | Some n \<Rightarrow> if n = 0 then 0 else n)"
      by (auto dest!: ebind_Inr)
    from True e get_Inr [OF sz] r n show ?thesis
      by (auto simp: volume_size_def split: option.splits)
  qed
qed

lemma volume_size_empty: "volume_size (Some (YMap [])) = 0"
  by (simp add: volume_size_def entry_def truthy_def)

lemma nested_get_path:
  assumes "nested_get values a b = Inr p"
  shows "volume_size (Some p) = volume_size (path_entry values [a, b, ''persistence''])"
proof -
  from assms obtain x y where x: "py_get values a (YMap []) = Inr x"
    and y: "py_get x b (YMap []) = Inr y"
    and p: "py_get y ''persistence'' (YMap []) = Inr p"
    unfolding nested_get_def by (blast dest: ebind_Inr)
  have e: "entry (YMap []) k = None" for k by (simp add: entry_def)
  have v0: "volume_size None = 0" by (simp add: volume_size_def)
  from get_Inr [OF x] get_Inr [OF y] get_Inr [OF p] show ?thesis
    by (auto simp: e v0 volume_size_empty split: option.splits)
qed

lemma get_service_storage_size_volume:
  assumes "(service, a, b) \<in> {(''postgresql'', ''postgresql'', ''primary''),
      (''redis'', ''redis'', ''master''), (''vllm'', ''ai'', ''vllm'')}"
    and "get_service_storage_size values service = Inr n"
  shows "n = volume_size (path_entry values [a, b, ''persistence''])"
proof -
  from assms obtain p where g: "nested_get values a b = Inr p" and s: "persistence_size p = Inr n"
    by (auto simp: get_service_storage_size_def dest!: ebind_Inr)
  from persistence_size_volume [OF s] nested_get_path [OF g] show ?thesis by simp
qed

lemma sum_storage_step:
  assumes "(service, a, b) \<in> {(''postgresql'', ''postgresql'', ''primary''),
      (''redis'', ''redis'', ''master''), (''vllm'', ''ai'', ''vllm'')}"
    and "sum_storage values (service # rest) tot = Inr t"
  shows "sum_storage values rest (tot + volume_size (path_entry values [a, b, ''persistence'']))
     = Inr t"
proof -
  from assms(2) obtain n where g: "get_service_storage_size values service = Inr n"
    and r: "sum_storage values rest (if n \<noteq> 0 then tot + n else tot) = Inr t"
    by (auto dest!: ebind_Inr)
  have "(if n \<noteq> 0 then tot + n else tot) = tot + n" by simp
  with r get_service_storage_size_volume [OF assms(1) g] show ?thesis by simp
qed

lemma vllm_section_present:
  assumes d: "is_dict values"
    and a: "py_contains ''ai'' values = Inr True"
    and v: "ebind (py_item values ''ai'') (py_contains ''vllm'') = Inr True"
    and g: "nested_get values ''ai'' ''vllm'' = Inr p"
  shows "path_entry values [''ai'', ''vllm''] \<noteq> None"
proof -
  from v obtain ai where ai: "py_item values ''ai'' = Inr ai"
    and c: "py_contains ''vllm'' ai = Inr True"
    by (blast dest: ebind_Inr)
  note e = item_Inr [OF ai]
  from g e obtain y where "py_get ai ''vllm'' (YMap []) = Inr y"
    by (auto simp: nested_get_def entry_get dest!: ebind_Inr)
  then have "is_dict ai" by (rule get_Inr_dict)
  with c have "entry ai ''vllm'' \<noteq> None" by (simp add: is_dict_contains)
  with e show ?thesis by auto
qed

lemma vllm_section_absent:
  assumes d: "is_dict values"
    and a: "py_contains ''ai'' values = Inr x"
    and v: "(if x then ebind (py_item values ''ai'') (py_contains ''vllm'') else Inr False)
        = Inr False"
  shows "path_entry values [''ai'', ''vllm''] = None"
proof (cases x)
  case False
  with a have "entry values ''ai'' = None" by (simp add: contains_Inr_False)
  then show ?thesis by simp
next
  case True
  with v obtain ai where ai: "py_item values ''ai'' = Inr ai"
    and c: "py_contains ''vllm'' ai = Inr False"
    by (auto dest!: ebind_Inr)
  from item_Inr [OF ai] contains_Inr_False [OF c] show ?thesis by simp
qed

lemma total_storage_sum:
  assumes d: "is_dict values" and t: "total_storage values = Inr t"
  shows "t = stored_total values"
proof -
  from t obtain services where sv: "services_with_storage values = Inr services"
    and s: "sum_storage values services 0 = Inr t"
    unfolding total_storage_def by (blast dest: ebind_Inr)
  from sv obtain x has_vllm where a: "py_contains ''ai'' values = Inr x"
    and v: "(if x then ebind (py_item values ''ai'') (py_contains ''vllm'') else Inr False)
        = Inr has_vllm"
    and l: "services = (if has_vllm then [''postgresql'', ''redis'', ''vllm'']
               else [''postgresql'', ''redis''])"
    unfolding services_with_storage_def by (auto dest!: ebind_Inr)
  show ?thesis
  proof (cases has_vllm)
    case False
    with v have "(if x then ebind (py_item values ''ai'') (py_contains ''vllm'') else Inr False)
        = Inr False" by simp
    with d a have n: "path_entry values [''ai'', ''vllm''] = None"
      by (rule vllm_section_absent)
    from False l s have 2: "sum_storage values [''postgresql'', ''redis''] 0 = Inr t" by simp
    have s1: "sum_storage values [''redis'']
        (0 + volume_size (path_entry values [''postgresql'', ''primary'', ''persistence'']))
        = Inr t"
      by (rule sum_storage_step [where a = "''postgresql''" and b = "''primary''", OF _ 2]) simp
    have s2: "sum_storage values []
        (0 + volume_size (path_entry values [''postgresql'', ''primary'', ''persistence''])
           + volume_size (path_entry values [''redis'', ''master'', ''persistence''])) = Inr t"
      by (rule sum_storage_step [where a = "''redis''" and b = "''master''", OF _ s1]) simp
    from s2 n show ?thesis by (simp add: stored_total_def del: path_entry.simps)
  next
    case True
    with v have x: "x" and v': "ebind (py_item values ''ai'') (py_contains ''vllm'') = Inr True"
      by (auto split: if_splits)
    from True l s have 3: "sum_storage values [''postgresql'', ''redis'', ''vllm''] 0 = Inr t"
      by simp
    have s1: "sum_storage values [''redis'', ''vllm'']
        (0 + volume_size (path_entry values [''postgresql'', ''primary'', ''persistence'']))
        = Inr t"
      by (rule sum_storage_step [where a = "''postgresql''" and b = "''primary''", OF _ 3]) simp
    have s2: "sum_storage values [''vllm'']
        (0 + volume_size (path_entry values [''postgresql'', ''primary'', ''persistence''])
           + volume_size (path_entry values [''redis'', ''master'', ''persistence''])) = Inr t"
      by (rule sum_storage_step [where a = "''redis''" and b = "''master''", OF _ s1]) simp
    have s3: "sum_storage values []
        (0 + volume_size (path_entry values [''postgresql'', ''primary'', ''persistence''])
           + volume_size (path_entry values [''redis'', ''master'', ''persistence''])
           + volume_size (path_entry values [''ai'', ''vllm'', ''persistence''])) = Inr t"
      by (rule sum_storage_step [where a = "''ai''" and b = "''vllm''", OF _ s2]) simp
    from s2 obtain n where "get_service_storage_size values ''vllm'' = Inr n"
      by (auto dest!: ebind_Inr)
    then obtain p where "nested_get values ''ai'' ''vllm'' = Inr p"
      by (auto simp: get_service_storage_size_def dest!: ebind_Inr)
    with d a x v' have n: "path_entry values [''ai'', ''vllm''] \<noteq> None"
      by (intro vllm_section_present) simp_all
    from s3 n show ?thesis by (auto simp add: stored_total_def simp del: path_entry.simps)
  qed
qed

lemma bnd_lift_returns:
  assumes "fst (bnd (lift r) f s) = Inr y"
  obtains x where "r = Inr x" and "bnd (lift r) f s = f x s"
  using assms by (cases r) (simp_all add: bnd_def lift_def)

text \<open>
  Claim C8, as the code has it. A call of \<^verbatim>\<open>_validate_storage_config\<close> on a values
  mapping that returns leaves one warning when no global storage class is set, then one
  warning when the total is above 100 * 1024 MB, and nothing else. The total is that of the
  enabled volumes of \<^verbatim>\<open>postgresql.primary\<close> and \<^verbatim>\<open>redis.master\<close> and, when the
  values have a section \<^verbatim>\<open>ai.vllm\<close> (its own \<^verbatim>\<open>enabled\<close> flag is not looked at),
  of \<^verbatim>\<open>ai.vllm\<close>. The text of the warning has the total divided by 1024 with one
  decimal, which below \<open>2 ^ 53\<close> MB is the exact quotient rounded to one place.
\<close>

theorem storage_warnings_for_total:
  assumes "is_dict values" and "fst (validate_storage_config values s) = Inr ()"
  shows "snd (validate_storage_config values s) = with_findings s ([], storage_warnings values)
     \<and> total_storage values = Inr (stored_total values)
     \<and> (0 < t \<and> t < 2 ^ 53 \<longrightarrow> gb_text t = one_decimal t 1024)"
proof (intro conjI impI)
  let ?rest2 = "\<lambda>tot. if 100 * 1024 < tot then
         bnd (lift (py_true_div tot 1024)) (\<lambda>gb.
           append_warning (''Total storage requests ('' @ format_1f gb
             @ ''GB) are quite large for development''))
       else ret ()"
  let ?rest1 = "\<lambda>storage_class.
     bnd (if \<not> truthy storage_class then append_warning ''Global storage class not specified''
          else ret ()) (\<lambda>u. bnd (lift (total_storage values)) ?rest2)"
  let ?rest0 = "\<lambda>global_config.
     bnd (lift (py_get global_config ''storageClass'' (YStr []))) ?rest1"
  have def: "validate_storage_config values =
      bnd (lift (py_get values ''global'' (YMap []))) ?rest0"
    by (simp add: validate_storage_config_def)
  from assms(2) obtain gc where gc: "py_get values ''global'' (YMap []) = Inr gc"
    and 0: "validate_storage_config values s = ?rest0 gc s"
    unfolding def by (rule bnd_lift_returns)
  from assms(2) 0 obtain sc where sc: "py_get gc ''storageClass'' (YStr []) = Inr sc"
    and 1: "?rest0 gc s = ?rest1 sc s"
    by (auto elim: bnd_lift_returns)
  define s1 where "s1 = with_findings s
      ([], if truthy sc then [] else [''Global storage class not specified''])"
  have 2: "?rest1 sc s = bnd (lift (total_storage values)) ?rest2 s1"
    by (simp add: s1_def run_simps)
  from assms(2) 0 1 2 obtain tot where tot: "total_storage values = Inr tot"
    and 3: "bnd (lift (total_storage values)) ?rest2 s1 = ?rest2 tot s1"
    by (auto elim: bnd_lift_returns)
  from total_storage_sum [OF assms(1) tot] have st: "tot = stored_total values" .
  with tot show "total_storage values = Inr (stored_total values)" by simp
  have cls: "truthy sc = (case path_entry values [''global'', ''storageClass''] of
            Some v \<Rightarrow> truthy v | None \<Rightarrow> False)"
    using get_Inr [OF gc] get_Inr [OF sc]
    by (auto simp: entry_def truthy_def split: option.splits)
  have 4: "snd (?rest2 tot s1) = with_findings s1
      ([], if 100 * 1024 < tot then
          [''Total storage requests ('' @ gb_text tot
             @ ''GB) are quite large for development'']
        else [])"
  proof (cases "100 * 1024 < tot")
    case False
    then show ?thesis by (simp add: ret_apply with_findings_nothing)
  next
    case True
    from assms(2) 0 1 2 3 True
    have "fst (bnd (lift (py_true_div tot 1024)) (\<lambda>gb.
           append_warning (''Total storage requests ('' @ format_1f gb
             @ ''GB) are quite large for development'')) s1) = Inr ()"
      by simp
    then obtain gb where "py_true_div tot 1024 = Inr gb"
      by (auto elim: bnd_lift_returns)
    with True show ?thesis
      by (simp add: run_simps gb_text_def)
  qed
  from 0 1 2 3 have "snd (validate_storage_config values s) = snd (?rest2 tot s1)"
    by simp
  also note 4
  finally show "snd (validate_storage_config values s)
      = with_findings s ([], storage_warnings values)"
    by (simp add: s1_def with_findings_twice storage_warnings_def st cls)
next
  assume "0 < t \<and> t < 2 ^ 53"
  then show "gb_text t = one_decimal t 1024"
    by (simp add: gb_text_exact)
qed

text \<open>
  Volumes of 60Gi and 50Gi are 112640 MB and one warning with 110.0GB; volumes of 50Gi and
  50Gi are 102400 MB, which is not above the bound; the values without a storage class and
  without volumes get the warning about the class alone.
\<close>

theorem storage_warnings_for_total_witness:
  "validate_storage_config (storing ''60Gi'' True ''50Gi'') fresh =
     (Inr (),
      \<lparr>errors = [],
       warnings = [''Total storage requests (110.0GB) are quite large for development'']\<rparr>)
   \<and> validate_storage_config (storing ''50Gi'' True ''50Gi'') fresh = (Inr (), fresh)
   \<and> validate_storage_config clean_values fresh =
     (Inr (), \<lparr>errors = [], warnings = [''Global storage class not specified'']\<rparr>)
   \<and> gb_text 153856 = ''150.2''"
proof (intro conjI)
  let ?v = "storing ''60Gi'' True ''50Gi''"
  have d: "is_dict ?v" by (simp add: storing_def is_dict_def)
  have r: "fst (validate_storage_config ?v fresh) = Inr ()" by code_simp
  have w: "with_findings fresh ([], storage_warnings ?v) =
      \<lparr>errors = [],
       warnings = [''Total storage requests (110.0GB) are quite large for development'']\<rparr>"
    by code_simp
  from storage_warnings_for_total [OF d r, of 1] w r
  show "validate_storage_config ?v fresh =
     (Inr (),
      \<lparr>errors = [],
       warnings = [''Total storage requests (110.0GB) are quite large for development'']\<rparr>)"
    by (metis prod.collapse)
next
  let ?v = "storing ''50Gi'' True ''50Gi''"
  have d: "is_dict ?v" by (simp add: storing_def is_dict_def)
  have r: "fst (validate_storage_config ?v fresh) = Inr ()" by code_simp
  have w: "with_findings fresh ([], storage_warnings ?v) = fresh"
    by code_simp
  from storage_warnings_for_total [OF d r, of 1] w r
  show "validate_storage_config ?v fresh = (Inr (), fresh)"
    by (metis prod.collapse)
next
  let ?v = "clean_values"
  have d: "is_dict ?v" by (simp add: clean_values_def is_dict_def)
  have r: "fst (validate_storage_config ?v fresh) = Inr ()" by code_simp
  have w: "with_findings fresh ([], storage_warnings ?v) =
      \<lparr>errors = [], warnings = [''Global storage class not specified'']\<rparr>"
    by code_simp
  from storage_warnings_for_total [OF d r, of 1] w r
  show "validate_storage_config ?v fresh =
     (Inr (), \<lparr>errors = [], warnings = [''Global storage class not specified'']\<rparr>)"
    by (metis prod.collapse)
next
  have d: "is_dict clean_values" by (simp add: clean_values_def is_dict_def)
  have r: "fst (validate_storage_config clean_values fresh) = Inr ()" by code_simp
  have b: "(0::int) < 153856 \<and> (153856::int) < 2 ^ 53" by simp
  have o: "one_decimal 153856 1024 = ''150.2''" by code_simp
  from storage_warnings_for_total [OF d r, of 153856] b o
  show "gb_text 153856 = ''150.2''" by simp
qed

text \<open>
  Claim C8 as it is written counts the volume of the model server only if that service is
  enabled. With \<^verbatim>\<open>ai.vllm.enabled\<close> false, a database volume of 10Gi (10240 MB, under
  the bound) and a model volume of 200Gi, the code warns about 210.0GB.
\<close>

theorem storage_disabled_vllm_counterexample:
  "path_entry (storing ''10Gi'' False ''200Gi'') [''ai'', ''vllm'', ''enabled''] = Some (YBool False)
   \<and> \<not> truthy (YBool False)
   \<and> parse_storage_size (YStr ''10Gi'') = Inr (Some 10240)
   \<and> \<not> (100 * 1024 < (10240 :: int))
   \<and> validate_storage_config (storing ''10Gi'' False ''200Gi'') fresh =
       (Inr (),
        \<lparr>errors = [],
         warnings = [''Total storage requests (210.0GB) are quite large for development'']\<rparr>)"
  by code_simp

end
